theory Spec2Isabelle
  imports Main "HOL-Library.List_Lexorder" "HOL-Library.Char_ord"
begin

section \<open>The tables of db.sql\<close>

text \<open>
  The store is the Postgres database created by \<^verbatim>\<open>backend/db.sql\<close>. Every column is
  \<^verbatim>\<open>TEXT\<close> (dates as \<^verbatim>\<open>YYYY-MM-DD\<close>, times as \<^verbatim>\<open>HH:MM\<close>) except
  \<^verbatim>\<open>is_booked\<close>. A table is the list of its rows in insertion order. The comparison
  operators of SQL on \<^verbatim>\<open>TEXT\<close> are modelled by the lexicographic order on character
  lists, the order every collation gives on strings of digits, colons and dashes.
  The column \<^verbatim>\<open>timeslot_id\<close> of \<^verbatim>\<open>bookings\<close> is the field \<open>b_timeslot_id\<close>.
\<close>

record timeslot =
  timeslot_id :: string
  slot_date :: string
  start_time :: string
  end_time :: string
  is_booked :: bool

record booking =
  booking_id :: string
  b_timeslot_id :: string
  full_name :: string
  email :: string
  phone :: "string option"
  appointment_notes :: "string option"
  booking_status :: string
  created_at :: string

record db =
  timeslots :: "timeslot list"
  bookings :: "booking list"

section \<open>The interval overlap check\<close>

text \<open>
  The \<^verbatim>\<open>WHERE\<close> clause of both overlap queries of server.js, on a candidate
  \<open>(d, s, e)\<close> and an existing row:
  \<^verbatim>\<open>slot_date = $1 AND (start_time < $3 AND end_time > $2)\<close>.
\<close>

definition overlaps :: "string \<Rightarrow> string \<Rightarrow> string \<Rightarrow> timeslot \<Rightarrow> bool" where
  "overlaps d s e t = (slot_date t = d \<and> (start_time t < e \<and> end_time t > s))"

text \<open>The overlap query of \<^verbatim>\<open>POST /api/admin/timeslots\<close>: its result rows.\<close>

definition overlapQuery_create :: "db \<Rightarrow> string \<Rightarrow> string \<Rightarrow> string \<Rightarrow> timeslot list" where
  "overlapQuery_create st d s e = filter (overlaps d s e) (timeslots st)"

text \<open>
  The overlap query of \<^verbatim>\<open>PUT /api/admin/timeslots/:timeslot_id\<close>, which adds
  \<^verbatim>\<open>timeslot_id != $2\<close>.
\<close>

definition overlapQuery_edit :: "db \<Rightarrow> string \<Rightarrow> string \<Rightarrow> string \<Rightarrow> string \<Rightarrow> timeslot list" where
  "overlapQuery_edit st d tid s e =
     filter (\<lambda>t. slot_date t = d \<and> timeslot_id t \<noteq> tid \<and> (start_time t < e \<and> end_time t > s))
       (timeslots st)"

section \<open>SQL statements under the constraints of db.sql\<close>

text \<open>
  A statement that violates a constraint of db.sql raises in the driver; it is \<open>None\<close> here
  and every handler catches it in its \<^verbatim>\<open>catch\<close> block. The constraints are the two
  primary keys and \<^verbatim>\<open>fk_timeslot\<close>, the foreign key of \<^verbatim>\<open>bookings.timeslot_id\<close> into
  \<^verbatim>\<open>timeslots\<close>, declared with no \<^verbatim>\<open>ON DELETE\<close> action: a referenced timeslot cannot be
  deleted, whatever the status of the bookings that reference it.
\<close>

definition select_timeslot :: "db \<Rightarrow> string \<Rightarrow> timeslot list" where
  "select_timeslot st tid = filter (\<lambda>t. timeslot_id t = tid) (timeslots st)"

definition select_booking :: "db \<Rightarrow> string \<Rightarrow> booking list" where
  "select_booking st bid = filter (\<lambda>b. booking_id b = bid) (bookings st)"

definition update_is_booked :: "bool \<Rightarrow> string \<Rightarrow> db \<Rightarrow> db" where
  "update_is_booked v tid st =
     st\<lparr>timeslots := map (\<lambda>t. if timeslot_id t = tid then t\<lparr>is_booked := v\<rparr> else t) (timeslots st)\<rparr>"

definition update_times :: "string \<Rightarrow> string \<Rightarrow> string \<Rightarrow> db \<Rightarrow> db" where
  "update_times s e tid st =
     st\<lparr>timeslots :=
          map (\<lambda>t. if timeslot_id t = tid then t\<lparr>start_time := s, end_time := e\<rparr> else t)
            (timeslots st)\<rparr>"

definition update_booking_status :: "string \<Rightarrow> string \<Rightarrow> db \<Rightarrow> db" where
  "update_booking_status v bid st =
     st\<lparr>bookings :=
          map (\<lambda>b. if booking_id b = bid then b\<lparr>booking_status := v\<rparr> else b) (bookings st)\<rparr>"

definition insert_timeslot :: "timeslot \<Rightarrow> db \<Rightarrow> db option" where
  "insert_timeslot t st =
     (if timeslot_id t \<in> set (map timeslot_id (timeslots st)) then None
      else Some (st\<lparr>timeslots := timeslots st @ [t]\<rparr>))"

definition insert_booking :: "booking \<Rightarrow> db \<Rightarrow> db option" where
  "insert_booking b st =
     (if booking_id b \<in> set (map booking_id (bookings st)) then None
      else if b_timeslot_id b \<notin> set (map timeslot_id (timeslots st)) then None
      else Some (st\<lparr>bookings := bookings st @ [b]\<rparr>))"

definition delete_timeslot :: "string \<Rightarrow> db \<Rightarrow> db option" where
  "delete_timeslot tid st =
     (if tid \<in> set (map timeslot_id (timeslots st)) \<and> tid \<in> set (map b_timeslot_id (bookings st))
      then None
      else Some (st\<lparr>timeslots := filter (\<lambda>t. timeslot_id t \<noteq> tid) (timeslots st)\<rparr>))"

section \<open>Requests, responses and the effects of a handler\<close>

text \<open>
  A field of a JSON body is absent (\<open>None\<close>) or a string. JavaScript's \<^verbatim>\<open>!x\<close> holds of
  an absent field and of the empty string.
\<close>

definition falsy :: "string option \<Rightarrow> bool" where
  "falsy x = (case x of None \<Rightarrow> True | Some v \<Rightarrow> v = [])"

text \<open>\<^verbatim>\<open>x || y\<close> with \<open>y\<close> a string of the current row.\<close>

definition or_else :: "string option \<Rightarrow> string \<Rightarrow> string" where
  "or_else x y = (case x of None \<Rightarrow> y | Some v \<Rightarrow> if v = [] then y else v)"

text \<open>\<^verbatim>\<open>x || null\<close>.\<close>

definition or_null :: "string option \<Rightarrow> string option" where
  "or_null x = (if falsy x then None else x)"

text \<open>
  Postgres refuses a text parameter that carries a NUL byte (error 22021): the statement
  raises and the handler's \<^verbatim>\<open>catch\<close> block answers 500, after a \<^verbatim>\<open>ROLLBACK\<close> where a
  transaction is open. No handler looks at the characters of a request, so each one meets
  this at the first statement that is sent a string of the request with such a byte. A
  string read from a row has been accepted by the store, and the results of
  \<^verbatim>\<open>randomUUID\<close> and \<^verbatim>\<open>toISOString\<close> carry no such byte.
\<close>

definition has_nul :: "string \<Rightarrow> bool" where
  "has_nul s = (CHR 0x00 \<in> set s)"

definition opt_has_nul :: "string option \<Rightarrow> bool" where
  "opt_has_nul x = (case x of None \<Rightarrow> False | Some v \<Rightarrow> has_nul v)"

datatype event =
    timeslot_update timeslot
  | timeslot_deleted string
  | booking_update string string string

text \<open>
  What a handler does besides changing the tables, in the order it does it: the
  transaction statements sent on its client and the events given to \<^verbatim>\<open>io.emit\<close>.
\<close>

datatype action = BEGIN | COMMIT | ROLLBACK | Emit event

datatype 'a response = Failure nat string | Ok 'a

record 'a outcome =
  db_after :: db
  trace :: "action list"
  reply :: "'a response"

text \<open>The error taxonomy of the specification, read off the messages of server.js.\<close>

datatype error_kind = InvalidInput | NotFound | Conflict | StorageFailure

definition kind_of_message :: "string \<Rightarrow> error_kind option" where
  "kind_of_message m =
     (if m = ''Missing required fields: timeslot_id, full_name, email'' then Some InvalidInput
      else if m = ''Missing required fields: slot_date, start_time, end_time'' then Some InvalidInput
      else if m = ''At least one field (start_time or end_time) is required to update''
        then Some InvalidInput
      else if m = ''Missing month or year query parameter'' then Some InvalidInput
      else if m = ''Invalid timeslot_id'' then Some NotFound
      else if m = ''Timeslot not found'' then Some NotFound
      else if m = ''Booking not found'' then Some NotFound
      else if m = ''Timeslot already booked'' then Some Conflict
      else if m = ''Overlapping timeslot exists'' then Some Conflict
      else if m = ''Cannot delete timeslot with active booking'' then Some Conflict
      else if m = ''Booking is already canceled'' then Some Conflict
      else if m = ''Internal server error'' then Some StorageFailure
      else None)"

definition error_kind :: "'a response \<Rightarrow> error_kind option" where
  "error_kind r = (case r of Failure c m \<Rightarrow> kind_of_message m | Ok v \<Rightarrow> None)"

section \<open>The booking transactions\<close>

record booking_request =
  req_timeslot_id :: "string option"
  req_full_name :: "string option"
  req_email :: "string option"
  req_phone :: "string option"
  req_appointment_notes :: "string option"

record booking_details =
  bd_timeslot_id :: string
  bd_full_name :: string
  bd_email :: string
  bd_slot_date :: string
  bd_start_time :: string
  bd_end_time :: string

text \<open>
  \<^verbatim>\<open>POST /api/bookings\<close>. The two values the handler draws from its environment are
  parameters: \<open>uuid\<close> is the result of \<^verbatim>\<open>crypto.randomUUID()\<close> and \<open>now\<close> that of
  \<^verbatim>\<open>new Date().toISOString()\<close>. A \<^verbatim>\<open>ROLLBACK\<close> restores the tables of the start.
  Past the first check the three required fields are non-empty strings; \<open>or_else\<close> reads
  them.
\<close>

definition post_bookings ::
  "string \<Rightarrow> string \<Rightarrow> booking_request \<Rightarrow> db \<Rightarrow> (string \<times> booking_details) outcome" where
  "post_bookings uuid now req st =
     (if falsy (req_timeslot_id req) \<or> falsy (req_full_name req) \<or> falsy (req_email req) then
        \<lparr>db_after = st, trace = [],
         reply = Failure 400 ''Missing required fields: timeslot_id, full_name, email''\<rparr>
      else
        let tid = or_else (req_timeslot_id req) [];
            name = or_else (req_full_name req) [];
            mail = or_else (req_email req) []
        in if has_nul tid then
             \<lparr>db_after = st, trace = [BEGIN, ROLLBACK],
              reply = Failure 500 ''Internal server error''\<rparr>
           else
           case select_timeslot st tid of
             [] \<Rightarrow> \<lparr>db_after = st, trace = [BEGIN, ROLLBACK],
                    reply = Failure 400 ''Invalid timeslot_id''\<rparr>
           | timeslot # rest \<Rightarrow>
               if is_booked timeslot then
                 \<lparr>db_after = st, trace = [BEGIN, ROLLBACK],
                  reply = Failure 400 ''Timeslot already booked''\<rparr>
               else if has_nul name \<or> has_nul mail \<or> opt_has_nul (or_null (req_phone req)) \<or>
                       opt_has_nul (or_null (req_appointment_notes req)) then
                 \<lparr>db_after = st, trace = [BEGIN, ROLLBACK],
                  reply = Failure 500 ''Internal server error''\<rparr>
               else
                 (case insert_booking
                        \<lparr>booking_id = uuid, b_timeslot_id = tid, full_name = name, email = mail,
                         phone = or_null (req_phone req),
                         appointment_notes = or_null (req_appointment_notes req),
                         booking_status = ''active'', created_at = now\<rparr>
                        (update_is_booked True tid st) of
                   None \<Rightarrow> \<lparr>db_after = st, trace = [BEGIN, ROLLBACK],
                            reply = Failure 500 ''Internal server error''\<rparr>
                 | Some st' \<Rightarrow>
                     \<lparr>db_after = st',
                      trace = [BEGIN, COMMIT,
                               Emit (timeslot_update (timeslot\<lparr>is_booked := True\<rparr>)),
                               Emit (booking_update uuid tid ''active'')],
                      reply = Ok (uuid,
                                 \<lparr>bd_timeslot_id = tid, bd_full_name = name, bd_email = mail,
                                  bd_slot_date = slot_date timeslot,
                                  bd_start_time = start_time timeslot,
                                  bd_end_time = end_time timeslot\<rparr>)\<rparr>))"

text \<open>
  \<^verbatim>\<open>PUT /api/admin/bookings/:booking_id/cancel\<close>, once \<^verbatim>\<open>authenticateAdmin\<close> has let
  the request through (as for every admin route below). After the commit the handler
  emits \<^verbatim>\<open>booking_update\<close>, reads the timeslot again and emits \<^verbatim>\<open>timeslot_update\<close> with
  the row it finds, if any.
\<close>

definition put_cancel :: "string \<Rightarrow> db \<Rightarrow> string outcome" where
  "put_cancel bid st =
     (if has_nul bid then
        \<lparr>db_after = st, trace = [BEGIN, ROLLBACK], reply = Failure 500 ''Internal server error''\<rparr>
      else
      case select_booking st bid of
        [] \<Rightarrow> \<lparr>db_after = st, trace = [BEGIN, ROLLBACK], reply = Failure 400 ''Booking not found''\<rparr>
      | booking # rest \<Rightarrow>
          if booking_status booking = ''canceled'' then
            \<lparr>db_after = st, trace = [BEGIN, ROLLBACK],
             reply = Failure 400 ''Booking is already canceled''\<rparr>
          else
            let st' = update_is_booked False (b_timeslot_id booking)
                        (update_booking_status ''canceled'' bid st)
            in \<lparr>db_after = st',
                trace = [BEGIN, COMMIT,
                         Emit (booking_update bid (b_timeslot_id booking) ''canceled'')]
                        @ (case select_timeslot st' (b_timeslot_id booking) of
                             [] \<Rightarrow> []
                           | row # rows \<Rightarrow> [Emit (timeslot_update row)]),
                reply = Ok ''Booking canceled and timeslot updated successfully''\<rparr>)"

section \<open>The admin operations on timeslots\<close>

record slot_request =
  req_slot_date :: "string option"
  req_start_time :: "string option"
  req_end_time :: "string option"

text \<open>\<^verbatim>\<open>POST /api/admin/timeslots\<close>; \<open>uuid\<close> is the result of \<^verbatim>\<open>crypto.randomUUID()\<close>.\<close>

definition post_timeslots :: "string \<Rightarrow> slot_request \<Rightarrow> db \<Rightarrow> string outcome" where
  "post_timeslots uuid req st =
     (if falsy (req_slot_date req) \<or> falsy (req_start_time req) \<or> falsy (req_end_time req) then
        \<lparr>db_after = st, trace = [],
         reply = Failure 400 ''Missing required fields: slot_date, start_time, end_time''\<rparr>
      else
        let d = or_else (req_slot_date req) [];
            s = or_else (req_start_time req) [];
            e = or_else (req_end_time req) []
        in if has_nul d \<or> has_nul s \<or> has_nul e then
             \<lparr>db_after = st, trace = [], reply = Failure 500 ''Internal server error''\<rparr>
           else if length (overlapQuery_create st d s e) > 0 then
             \<lparr>db_after = st, trace = [], reply = Failure 400 ''Overlapping timeslot exists''\<rparr>
           else
             case insert_timeslot
                    \<lparr>timeslot_id = uuid, slot_date = d, start_time = s, end_time = e,
                     is_booked = False\<rparr> st of
               None \<Rightarrow> \<lparr>db_after = st, trace = [], reply = Failure 500 ''Internal server error''\<rparr>
             | Some st' \<Rightarrow>
                 \<lparr>db_after = st',
                  trace = [Emit (timeslot_update
                                  \<lparr>timeslot_id = uuid, slot_date = d, start_time = s,
                                   end_time = e, is_booked = False\<rparr>)],
                  reply = Ok uuid\<rparr>)"

text \<open>
  \<^verbatim>\<open>PUT /api/admin/timeslots/:timeslot_id\<close>; the id is a path parameter, the times are
  fields of the body.
\<close>

definition put_timeslots :: "string \<Rightarrow> string option \<Rightarrow> string option \<Rightarrow> db \<Rightarrow> string outcome" where
  "put_timeslots tid start_time_in end_time_in st =
     (if falsy start_time_in \<and> falsy end_time_in then
        \<lparr>db_after = st, trace = [],
         reply = Failure 400
                   ''At least one field (start_time or end_time) is required to update''\<rparr>
      else if has_nul tid then
        \<lparr>db_after = st, trace = [], reply = Failure 500 ''Internal server error''\<rparr>
      else
        case select_timeslot st tid of
          [] \<Rightarrow> \<lparr>db_after = st, trace = [], reply = Failure 400 ''Timeslot not found''\<rparr>
        | currentTimeslot # rest \<Rightarrow>
            let new_start_time = or_else start_time_in (start_time currentTimeslot);
                new_end_time = or_else end_time_in (end_time currentTimeslot)
            in if opt_has_nul start_time_in \<or> opt_has_nul end_time_in then
                 \<lparr>db_after = st, trace = [], reply = Failure 500 ''Internal server error''\<rparr>
               else if length (overlapQuery_edit st (slot_date currentTimeslot) tid
                            new_start_time new_end_time) > 0 then
                 \<lparr>db_after = st, trace = [], reply = Failure 400 ''Overlapping timeslot exists''\<rparr>
               else
                 \<lparr>db_after = update_times new_start_time new_end_time tid st,
                  trace = [Emit (timeslot_update
                                  \<lparr>timeslot_id = tid, slot_date = slot_date currentTimeslot,
                                   start_time = new_start_time, end_time = new_end_time,
                                   is_booked = is_booked currentTimeslot\<rparr>)],
                  reply = Ok ''Timeslot updated successfully''\<rparr>)"

text \<open>\<^verbatim>\<open>DELETE /api/admin/timeslots/:timeslot_id\<close>.\<close>

definition delete_timeslots :: "string \<Rightarrow> db \<Rightarrow> string outcome" where
  "delete_timeslots tid st =
     (if has_nul tid then
        \<lparr>db_after = st, trace = [], reply = Failure 500 ''Internal server error''\<rparr>
      else if length (filter (\<lambda>b. b_timeslot_id b = tid \<and> booking_status b = ''active'')
                   (bookings st)) > 0 then
        \<lparr>db_after = st, trace = [],
         reply = Failure 400 ''Cannot delete timeslot with active booking''\<rparr>
      else
        case delete_timeslot tid st of
          None \<Rightarrow> \<lparr>db_after = st, trace = [], reply = Failure 500 ''Internal server error''\<rparr>
        | Some st' \<Rightarrow>
            \<lparr>db_after = st', trace = [Emit (timeslot_deleted tid)],
             reply = Ok ''Timeslot deleted successfully''\<rparr>)"

section \<open>The monthly aggregate\<close>

text \<open>
  \<^verbatim>\<open>LIKE\<close> of Postgres, pattern first: \<^verbatim>\<open>%\<close> matches any run of characters, \<^verbatim>\<open>_\<close> any one
  character, and a backslash takes the next pattern character literally. Postgres rejects a
  pattern that ends in a lone backslash; the patterns built below end in \<^verbatim>\<open>-%\<close>, so that
  case (\<open>False\<close> here) is never reached from the handler.
\<close>

fun sql_like :: "string \<Rightarrow> string \<Rightarrow> bool" where
  "sql_like [] s = (s = [])"
| "sql_like (p # ps) s =
     (if p = CHR ''%'' then
        (sql_like ps s \<or> (case s of [] \<Rightarrow> False | c # cs \<Rightarrow> sql_like (p # ps) cs))
      else if p = CHR ''_'' then
        (case s of [] \<Rightarrow> False | c # cs \<Rightarrow> sql_like ps cs)
      else if p = CHR 0x5C then
        (case ps of
           [] \<Rightarrow> False
         | q # qs \<Rightarrow> (case s of [] \<Rightarrow> False | c # cs \<Rightarrow> c = q \<and> sql_like qs cs))
      else
        (case s of [] \<Rightarrow> False | c # cs \<Rightarrow> c = p \<and> sql_like ps cs))"

declare sql_like.simps [simp del]

text \<open>\<^verbatim>\<open>month.toString().padStart(2, "0")\<close>.\<close>

definition padStart2 :: "string \<Rightarrow> string" where
  "padStart2 m = replicate (2 - length m) (CHR ''0'') @ m"

definition month_pattern :: "string \<Rightarrow> string \<Rightarrow> string" where
  "month_pattern year month = year @ ''-'' @ padStart2 month @ ''-%''"

record calendar_row =
  row_slot_date :: string
  row_total_slots :: nat
  row_booked_slots :: nat

text \<open>
  The aggregate query: the rows that match the pattern, one group for each distinct
  \<^verbatim>\<open>slot_date\<close> among them, \<^verbatim>\<open>COUNT(*)\<close> and the \<^verbatim>\<open>SUM\<close> over each group, the groups
  ordered by \<^verbatim>\<open>slot_date\<close>.
\<close>

definition calendar_query :: "db \<Rightarrow> string \<Rightarrow> calendar_row list" where
  "calendar_query st pattern =
     (let rows = filter (\<lambda>t. sql_like pattern (slot_date t)) (timeslots st)
      in map (\<lambda>d. let grp = filter (\<lambda>t. slot_date t = d) rows
                  in \<lparr>row_slot_date = d, row_total_slots = length grp,
                      row_booked_slots = sum_list (map (\<lambda>t. if is_booked t then 1 else 0) grp)\<rparr>)
           (sort (remdups (map slot_date rows))))"

record calendar_entry =
  ce_slot_date :: string
  total_slots :: int
  booked_slots :: int
  available :: bool

text \<open>\<^verbatim>\<open>GET /api/calendar\<close>; \<open>month\<close> and \<open>year\<close> are query parameters.\<close>

definition get_calendar :: "string option \<Rightarrow> string option \<Rightarrow> db \<Rightarrow> calendar_entry list response" where
  "get_calendar month year st =
     (if falsy month \<or> falsy year then Failure 400 ''Missing month or year query parameter''
      else if has_nul (month_pattern (or_else year []) (or_else month [])) then
        Failure 500 ''Internal server error''
      else
        Ok (map (\<lambda>row. \<lparr>ce_slot_date = row_slot_date row,
                         total_slots = int (row_total_slots row),
                         booked_slots = int (row_booked_slots row),
                         available = (int (row_total_slots row) - int (row_booked_slots row) > 0)\<rparr>)
              (calendar_query st (month_pattern (or_else year []) (or_else month [])))))"

section \<open>Runs of the system\<close>

datatype request =
    CreateBooking string string booking_request
  | CancelBooking string
  | CreateSlot string slot_request
  | EditSlot string "string option" "string option"
  | DeleteSlot string

fun step :: "db \<Rightarrow> request \<Rightarrow> db" where
  "step st (CreateBooking uuid now req) = db_after (post_bookings uuid now req st)"
| "step st (CancelBooking bid) = db_after (put_cancel bid st)"
| "step st (CreateSlot uuid req) = db_after (post_timeslots uuid req st)"
| "step st (EditSlot tid s e) = db_after (put_timeslots tid s e st)"
| "step st (DeleteSlot tid) = db_after (delete_timeslots tid st)"

text \<open>The state after a sequence of requests, each committed before the next starts.\<close>

definition run :: "db \<Rightarrow> request list \<Rightarrow> db" where
  "run st rs = foldl step st rs"

text \<open>The rows db.sql inserts.\<close>

definition seed_db :: db where
  "seed_db =
     \<lparr>timeslots =
        [\<lparr>timeslot_id = ''ts1'', slot_date = ''2023-10-15'', start_time = ''09:00'',
          end_time = ''09:30'', is_booked = True\<rparr>,
         \<lparr>timeslot_id = ''ts2'', slot_date = ''2023-10-15'', start_time = ''09:30'',
          end_time = ''10:00'', is_booked = False\<rparr>,
         \<lparr>timeslot_id = ''ts3'', slot_date = ''2023-10-15'', start_time = ''10:00'',
          end_time = ''10:30'', is_booked = True\<rparr>,
         \<lparr>timeslot_id = ''ts4'', slot_date = ''2023-10-15'', start_time = ''10:30'',
          end_time = ''11:00'', is_booked = False\<rparr>,
         \<lparr>timeslot_id = ''ts5'', slot_date = ''2023-10-16'', start_time = ''11:00'',
          end_time = ''11:30'', is_booked = False\<rparr>,
         \<lparr>timeslot_id = ''ts6'', slot_date = ''2023-10-16'', start_time = ''11:30'',
          end_time = ''12:00'', is_booked = False\<rparr>,
         \<lparr>timeslot_id = ''ts7'', slot_date = ''2023-10-16'', start_time = ''12:00'',
          end_time = ''12:30'', is_booked = False\<rparr>],
      bookings =
        [\<lparr>booking_id = ''booking1'', b_timeslot_id = ''ts1'', full_name = ''Alice Johnson'',
          email = ''alice.johnson@gmail.com'', phone = Some ''555-1234'',
          appointment_notes = Some ''Consultation appointment'', booking_status = ''active'',
          created_at = ''2023-10-15 08:55:00''\<rparr>,
         \<lparr>booking_id = ''booking2'', b_timeslot_id = ''ts3'', full_name = ''Bob Smith'',
          email = ''bob.smith@gmail.com'', phone = None,
          appointment_notes = Some ''Follow up consultation'', booking_status = ''active'',
          created_at = ''2023-10-15 09:55:00''\<rparr>,
         \<lparr>booking_id = ''booking3'', b_timeslot_id = ''ts7'', full_name = ''Charlie Davis'',
          email = ''charlie.davis@example.net'', phone = Some ''555-5678'',
          appointment_notes = Some ''Initial appointment request'', booking_status = ''canceled'',
          created_at = ''2023-10-16 11:55:00''\<rparr>]\<rparr>"

section \<open>Integrity of a database state\<close>

text \<open>The system-wide invariant: a slot is flagged booked exactly when an active booking references it.\<close>

definition booked_iff_active :: "db \<Rightarrow> bool" where
  "booked_iff_active st =
     (\<forall>t \<in> set (timeslots st).
        is_booked t \<longleftrightarrow>
          (\<exists>b \<in> set (bookings st). b_timeslot_id b = timeslot_id t \<and> booking_status b = ''active''))"

text \<open>
  What the constraints of db.sql and the handlers maintain besides: the primary key of
  \<^verbatim>\<open>bookings\<close>, the foreign key \<^verbatim>\<open>fk_timeslot\<close>, the two values of \<^verbatim>\<open>booking_status\<close>, and at
  most one active booking for a timeslot.
\<close>

definition fk_timeslot :: "db \<Rightarrow> bool" where
  "fk_timeslot st = (\<forall>b \<in> set (bookings st). b_timeslot_id b \<in> set (map timeslot_id (timeslots st)))"

definition consistent :: "db \<Rightarrow> bool" where
  "consistent st =
     (distinct (map booking_id (bookings st)) \<and>
      fk_timeslot st \<and>
      (\<forall>b \<in> set (bookings st). booking_status b = ''active'' \<or> booking_status b = ''canceled'') \<and>
      (\<forall>b \<in> set (bookings st). \<forall>b' \<in> set (bookings st).
         b_timeslot_id b = b_timeslot_id b' \<and> booking_status b = ''active'' \<and>
         booking_status b' = ''active'' \<longrightarrow> booking_id b = booking_id b') \<and>
      booked_iff_active st)"

section \<open>The events of a transaction\<close>

text \<open>The events a handler emits, in the order of its calls of \<^verbatim>\<open>io.emit\<close>.\<close>

fun emitted :: "action list \<Rightarrow> event list" where
  "emitted [] = []"
| "emitted (Emit e # as) = e # emitted as"
| "emitted (a # as) = emitted as"

text \<open>No event is emitted before the \<^verbatim>\<open>COMMIT\<close> of the trace.\<close>

definition emits_after_commit :: "action list \<Rightarrow> bool" where
  "emits_after_commit as = (emitted (takeWhile (\<lambda>a. a \<noteq> COMMIT) as) = [])"

text \<open>The two orders in which a slot update and a booking update can follow each other.\<close>

definition slot_then_booking :: "event list \<Rightarrow> bool" where
  "slot_then_booking es =
     (case es of [timeslot_update t, booking_update b tid s] \<Rightarrow> True | _ \<Rightarrow> False)"

definition booking_then_slot :: "event list \<Rightarrow> bool" where
  "booking_then_slot es =
     (case es of [booking_update b tid s, timeslot_update t] \<Rightarrow> True | _ \<Rightarrow> False)"

section \<open>The overlap check\<close>

lemma overlapQuery_create_nonempty:
  "length (overlapQuery_create st d s e) > 0 \<longleftrightarrow>
     (\<exists>t \<in> set (timeslots st). slot_date t = d \<and> s < end_time t \<and> start_time t < e)"
  by (auto simp: overlapQuery_create_def overlaps_def filter_empty_conv)

lemma overlapQuery_edit_nonempty:
  "length (overlapQuery_edit st d tid s e) > 0 \<longleftrightarrow>
     (\<exists>t \<in> set (timeslots st).
        slot_date t = d \<and> timeslot_id t \<noteq> tid \<and> s < end_time t \<and> start_time t < e)"
  by (auto simp: overlapQuery_edit_def filter_empty_conv)

text \<open>
  C2. Both overlap queries return a row exactly when some existing slot of the same date
  satisfies \<open>s1 < e2 \<and> s2 < e1\<close> against the candidate \<open>[s1, e1)\<close> (the edit query leaves
  the edited slot out). The relation between two slots is symmetric, and two slots with
  \<open>end1 = start2\<close> do not overlap, whichever of the two is the candidate.
\<close>

theorem overlap_check_half_open:
  "(length (overlapQuery_create st d s1 e1) > 0 \<longleftrightarrow>
      (\<exists>t \<in> set (timeslots st). slot_date t = d \<and> s1 < end_time t \<and> start_time t < e1)) \<and>
   (length (overlapQuery_edit st d tid s1 e1) > 0 \<longleftrightarrow>
      (\<exists>t \<in> set (timeslots st).
         slot_date t = d \<and> timeslot_id t \<noteq> tid \<and> s1 < end_time t \<and> start_time t < e1)) \<and>
   (overlaps (slot_date a) (start_time a) (end_time a) b \<longleftrightarrow>
      overlaps (slot_date b) (start_time b) (end_time b) a) \<and>
   (end_time a = start_time b \<longrightarrow>
      \<not> overlaps (slot_date a) (start_time a) (end_time a) b \<and>
      \<not> overlaps (slot_date b) (start_time b) (end_time b) a)"
proof -
  have sym: "overlaps (slot_date a) (start_time a) (end_time a) b \<longleftrightarrow>
             overlaps (slot_date b) (start_time b) (end_time b) a"
    by (auto simp: overlaps_def)
  have adj: "end_time a = start_time b \<longrightarrow>
             \<not> overlaps (slot_date a) (start_time a) (end_time a) b \<and>
             \<not> overlaps (slot_date b) (start_time b) (end_time b) a"
    by (simp add: overlaps_def)
  show ?thesis
    using overlapQuery_create_nonempty [of st d s1 e1]
      overlapQuery_edit_nonempty [of st d tid s1 e1] sym adj
    by blast
qed

theorem overlap_check_half_open_witness:
  "end_time \<lparr>timeslot_id = ''ts2'', slot_date = ''2023-10-15'', start_time = ''09:30'',
             end_time = ''10:00'', is_booked = False\<rparr> =
   start_time \<lparr>timeslot_id = ''ts3'', slot_date = ''2023-10-15'', start_time = ''10:00'',
               end_time = ''10:30'', is_booked = True\<rparr> \<and>
   \<not> overlaps ''2023-10-15'' ''09:30'' ''10:00''
       \<lparr>timeslot_id = ''ts3'', slot_date = ''2023-10-15'', start_time = ''10:00'',
        end_time = ''10:30'', is_booked = True\<rparr> \<and>
   length (overlapQuery_create seed_db ''2023-10-15'' ''09:45'' ''10:15'') > 0 \<and>
   \<not> length (overlapQuery_create seed_db ''2023-10-17'' ''09:45'' ''10:15'') > 0"
  using overlap_check_half_open
    [of seed_db "''2023-10-15''" "''09:45''" "''10:15''" "''ts9''"
        "\<lparr>timeslot_id = ''ts2'', slot_date = ''2023-10-15'', start_time = ''09:30'',
          end_time = ''10:00'', is_booked = False\<rparr>"
        "\<lparr>timeslot_id = ''ts3'', slot_date = ''2023-10-15'', start_time = ''10:00'',
          end_time = ''10:30'', is_booked = True\<rparr>"]
    overlap_check_half_open
    [of seed_db "''2023-10-17''" "''09:45''" "''10:15''" "''ts9''"
        "\<lparr>timeslot_id = ''ts2'', slot_date = ''2023-10-15'', start_time = ''09:30'',
          end_time = ''10:00'', is_booked = False\<rparr>"
        "\<lparr>timeslot_id = ''ts3'', slot_date = ''2023-10-15'', start_time = ''10:00'',
          end_time = ''10:30'', is_booked = True\<rparr>"]
  by (simp add: seed_db_def)

section \<open>CreateBooking\<close>

lemma select_timeslot_empty:
  "select_timeslot st tid = [] \<longleftrightarrow> tid \<notin> set (map timeslot_id (timeslots st))"
  by (auto simp: select_timeslot_def filter_empty_conv)

lemma select_booking_empty:
  "select_booking st bid = [] \<longleftrightarrow> bid \<notin> set (map booking_id (bookings st))"
  by (auto simp: select_booking_def filter_empty_conv)

lemma select_timeslot_Cons:
  "select_timeslot st tid = t # rest \<Longrightarrow> t \<in> set (timeslots st) \<and> timeslot_id t = tid"
proof -
  assume a: "select_timeslot st tid = t # rest"
  have "t \<in> set (select_timeslot st tid)" by (simp add: a)
  then show ?thesis by (simp add: select_timeslot_def)
qed

lemma select_booking_Cons:
  "select_booking st bid = b # rest \<Longrightarrow> b \<in> set (bookings st) \<and> booking_id b = bid"
proof -
  assume a: "select_booking st bid = b # rest"
  have "b \<in> set (select_booking st bid)" by (simp add: a)
  then show ?thesis by (simp add: select_booking_def)
qed

lemma opt_has_nul_or_null: "opt_has_nul (or_null x) = opt_has_nul x"
  by (cases x) (auto simp: or_null_def falsy_def opt_has_nul_def has_nul_def)

lemma post_bookings_refused_id:
  assumes "req_timeslot_id req = Some tid" "tid \<noteq> []" "req_full_name req = Some name"
    "name \<noteq> []" "req_email req = Some mail" "mail \<noteq> []" "has_nul tid"
  shows "post_bookings uuid now req st =
           \<lparr>db_after = st, trace = [BEGIN, ROLLBACK],
            reply = Failure 500 ''Internal server error''\<rparr>"
  using assms by (simp add: post_bookings_def falsy_def or_else_def)

lemma post_bookings_valid:
  assumes "req_timeslot_id req = Some tid" "tid \<noteq> []" "req_full_name req = Some name"
    "name \<noteq> []" "req_email req = Some mail" "mail \<noteq> []" "\<not> has_nul tid"
  shows "post_bookings uuid now req st =
     (case select_timeslot st tid of
             [] \<Rightarrow> \<lparr>db_after = st, trace = [BEGIN, ROLLBACK],
                    reply = Failure 400 ''Invalid timeslot_id''\<rparr>
           | timeslot # rest \<Rightarrow>
               if is_booked timeslot then
                 \<lparr>db_after = st, trace = [BEGIN, ROLLBACK],
                  reply = Failure 400 ''Timeslot already booked''\<rparr>
               else if has_nul name \<or> has_nul mail \<or> opt_has_nul (req_phone req) \<or>
                       opt_has_nul (req_appointment_notes req) then
                 \<lparr>db_after = st, trace = [BEGIN, ROLLBACK],
                  reply = Failure 500 ''Internal server error''\<rparr>
               else
                 (case insert_booking
                        \<lparr>booking_id = uuid, b_timeslot_id = tid, full_name = name, email = mail,
                         phone = or_null (req_phone req),
                         appointment_notes = or_null (req_appointment_notes req),
                         booking_status = ''active'', created_at = now\<rparr>
                        (update_is_booked True tid st) of
                   None \<Rightarrow> \<lparr>db_after = st, trace = [BEGIN, ROLLBACK],
                            reply = Failure 500 ''Internal server error''\<rparr>
                 | Some st' \<Rightarrow>
                     \<lparr>db_after = st',
                      trace = [BEGIN, COMMIT,
                               Emit (timeslot_update (timeslot\<lparr>is_booked := True\<rparr>)),
                               Emit (booking_update uuid tid ''active'')],
                      reply = Ok (uuid,
                                 \<lparr>bd_timeslot_id = tid, bd_full_name = name, bd_email = mail,
                                  bd_slot_date = slot_date timeslot,
                                  bd_start_time = start_time timeslot,
                                  bd_end_time = end_time timeslot\<rparr>)\<rparr>))"
  using assms
  by (cases "select_timeslot st tid")
    (simp_all add: post_bookings_def falsy_def or_else_def opt_has_nul_or_null)

lemma update_is_booked_ids:
  "map timeslot_id (timeslots (update_is_booked v tid st)) = map timeslot_id (timeslots st)"
  by (simp add: update_is_booked_def comp_def if_distrib cong: if_cong)

lemma update_is_booked_bookings:
  "bookings (update_is_booked v tid st) = bookings st"
  by (simp add: update_is_booked_def)

text \<open>
  C3. For a request whose required fields are non-empty. A NUL byte in the slot id makes
  the locked read raise: the reply is 500 and nothing changes. Without one: when no slot
  has the id the handler answers ``Invalid timeslot_id'' (NotFound), when the slot it
  reads is already booked it answers ``Timeslot already booked'' (Conflict), and in both
  cases the transaction is rolled back and the tables are those of the start. For a free
  slot, a NUL byte in the name, the email, the phone or the notes makes the insertion
  raise: 500 after the rollback, nothing changes. Otherwise, the id drawn from
  \<^verbatim>\<open>randomUUID\<close> being new among the booking ids (the primary key refuses any other, see
  \<open>post_bookings_db_after\<close>), the slot's flag is set, exactly one booking is appended, with
  status active, that id and the creation timestamp, and the reply carries the id with the
  name, the email and the slot's date, start and end.
\<close>

theorem create_booking_outcomes:
  assumes "req_timeslot_id req = Some tid" "tid \<noteq> []" "req_full_name req = Some name"
    "name \<noteq> []" "req_email req = Some mail" "mail \<noteq> []"
  shows
    "(has_nul tid \<longrightarrow>
        post_bookings uuid now req st =
          \<lparr>db_after = st, trace = [BEGIN, ROLLBACK],
           reply = Failure 500 ''Internal server error''\<rparr>) \<and>
     (\<not> has_nul tid \<and> tid \<notin> set (map timeslot_id (timeslots st)) \<longrightarrow>
        post_bookings uuid now req st =
          \<lparr>db_after = st, trace = [BEGIN, ROLLBACK], reply = Failure 400 ''Invalid timeslot_id''\<rparr> \<and>
        error_kind (reply (post_bookings uuid now req st)) = Some NotFound) \<and>
     (\<forall>t rest. \<not> has_nul tid \<and> select_timeslot st tid = t # rest \<and> is_booked t \<longrightarrow>
        post_bookings uuid now req st =
          \<lparr>db_after = st, trace = [BEGIN, ROLLBACK],
           reply = Failure 400 ''Timeslot already booked''\<rparr> \<and>
        error_kind (reply (post_bookings uuid now req st)) = Some Conflict) \<and>
     (\<forall>t rest. \<not> has_nul tid \<and> select_timeslot st tid = t # rest \<and> \<not> is_booked t \<and>
        (has_nul name \<or> has_nul mail \<or> opt_has_nul (req_phone req) \<or>
         opt_has_nul (req_appointment_notes req)) \<longrightarrow>
        post_bookings uuid now req st =
          \<lparr>db_after = st, trace = [BEGIN, ROLLBACK],
           reply = Failure 500 ''Internal server error''\<rparr>) \<and>
     (\<forall>t rest. \<not> has_nul tid \<and> select_timeslot st tid = t # rest \<and> \<not> is_booked t \<and>
        \<not> has_nul name \<and> \<not> has_nul mail \<and> \<not> opt_has_nul (req_phone req) \<and>
        \<not> opt_has_nul (req_appointment_notes req) \<and>
        uuid \<notin> set (map booking_id (bookings st)) \<longrightarrow>
        post_bookings uuid now req st =
          \<lparr>db_after =
             \<lparr>timeslots =
                map (\<lambda>x. if timeslot_id x = tid then x\<lparr>is_booked := True\<rparr> else x) (timeslots st),
              bookings =
                bookings st @
                [\<lparr>booking_id = uuid, b_timeslot_id = tid, full_name = name, email = mail,
                  phone = or_null (req_phone req),
                  appointment_notes = or_null (req_appointment_notes req),
                  booking_status = ''active'', created_at = now\<rparr>]\<rparr>,
           trace = [BEGIN, COMMIT, Emit (timeslot_update (t\<lparr>is_booked := True\<rparr>)),
                    Emit (booking_update uuid tid ''active'')],
           reply = Ok (uuid,
                       \<lparr>bd_timeslot_id = tid, bd_full_name = name, bd_email = mail,
                        bd_slot_date = slot_date t, bd_start_time = start_time t,
                        bd_end_time = end_time t\<rparr>)\<rparr>)"
proof (intro conjI allI impI)
  assume "has_nul tid"
  then show "post_bookings uuid now req st =
          \<lparr>db_after = st, trace = [BEGIN, ROLLBACK],
           reply = Failure 500 ''Internal server error''\<rparr>"
    by (rule post_bookings_refused_id [OF assms])
next
  assume a: "\<not> has_nul tid \<and> tid \<notin> set (map timeslot_id (timeslots st))"
  then have nn: "\<not> has_nul tid" and e: "select_timeslot st tid = []"
    by (simp_all add: select_timeslot_empty)
  show "post_bookings uuid now req st =
          \<lparr>db_after = st, trace = [BEGIN, ROLLBACK], reply = Failure 400 ''Invalid timeslot_id''\<rparr>"
    by (simp add: post_bookings_valid [OF assms nn] e)
  then show "error_kind (reply (post_bookings uuid now req st)) = Some NotFound"
    by (simp add: error_kind_def kind_of_message_def)
next
  fix t rest
  assume a: "\<not> has_nul tid \<and> select_timeslot st tid = t # rest \<and> is_booked t"
  then have nn: "\<not> has_nul tid" by simp
  show "post_bookings uuid now req st =
          \<lparr>db_after = st, trace = [BEGIN, ROLLBACK],
           reply = Failure 400 ''Timeslot already booked''\<rparr>"
    using a by (simp add: post_bookings_valid [OF assms nn])
  then show "error_kind (reply (post_bookings uuid now req st)) = Some Conflict"
    by (simp add: error_kind_def kind_of_message_def)
next
  fix t rest
  assume a: "\<not> has_nul tid \<and> select_timeslot st tid = t # rest \<and> \<not> is_booked t \<and>
        (has_nul name \<or> has_nul mail \<or> opt_has_nul (req_phone req) \<or>
         opt_has_nul (req_appointment_notes req))"
  then have nn: "\<not> has_nul tid" by simp
  show "post_bookings uuid now req st =
          \<lparr>db_after = st, trace = [BEGIN, ROLLBACK],
           reply = Failure 500 ''Internal server error''\<rparr>"
    using a by (simp add: post_bookings_valid [OF assms nn])
next
  fix t rest
  assume a: "\<not> has_nul tid \<and> select_timeslot st tid = t # rest \<and> \<not> is_booked t \<and>
        \<not> has_nul name \<and> \<not> has_nul mail \<and> \<not> opt_has_nul (req_phone req) \<and>
        \<not> opt_has_nul (req_appointment_notes req) \<and>
        uuid \<notin> set (map booking_id (bookings st))"
  then have nn: "\<not> has_nul tid" by simp
  from a have "tid \<in> set (map timeslot_id (timeslots (update_is_booked True tid st)))"
    using select_timeslot_Cons [of st tid t rest] by (auto simp: update_is_booked_ids)
  then have "insert_booking
                        \<lparr>booking_id = uuid, b_timeslot_id = tid, full_name = name, email = mail,
                         phone = or_null (req_phone req),
                         appointment_notes = or_null (req_appointment_notes req),
                         booking_status = ''active'', created_at = now\<rparr>
                        (update_is_booked True tid st) = Some (
             \<lparr>timeslots =
                map (\<lambda>x. if timeslot_id x = tid then x\<lparr>is_booked := True\<rparr> else x) (timeslots st),
              bookings =
                bookings st @
                [\<lparr>booking_id = uuid, b_timeslot_id = tid, full_name = name, email = mail,
                  phone = or_null (req_phone req),
                  appointment_notes = or_null (req_appointment_notes req),
                  booking_status = ''active'', created_at = now\<rparr>]\<rparr>)"
    using a by (simp add: insert_booking_def update_is_booked_bookings) (simp add: update_is_booked_def)
  then show "post_bookings uuid now req st =
          \<lparr>db_after =
             \<lparr>timeslots =
                map (\<lambda>x. if timeslot_id x = tid then x\<lparr>is_booked := True\<rparr> else x) (timeslots st),
              bookings =
                bookings st @
                [\<lparr>booking_id = uuid, b_timeslot_id = tid, full_name = name, email = mail,
                  phone = or_null (req_phone req),
                  appointment_notes = or_null (req_appointment_notes req),
                  booking_status = ''active'', created_at = now\<rparr>]\<rparr>,
           trace = [BEGIN, COMMIT, Emit (timeslot_update (t\<lparr>is_booked := True\<rparr>)),
                    Emit (booking_update uuid tid ''active'')],
           reply = Ok (uuid,
                       \<lparr>bd_timeslot_id = tid, bd_full_name = name, bd_email = mail,
                        bd_slot_date = slot_date t, bd_start_time = start_time t,
                        bd_end_time = end_time t\<rparr>)\<rparr>"
    using a by (simp add: post_bookings_valid [OF assms nn])
qed

theorem create_booking_outcomes_witness:
  "reply (post_bookings ''u1'' ''2023-10-14T08:00:00.000Z''
            \<lparr>req_timeslot_id = Some ''ts9'', req_full_name = Some ''Jane Doe'',
             req_email = Some ''jane@x.com'', req_phone = None,
             req_appointment_notes = None\<rparr> seed_db) = Failure 400 ''Invalid timeslot_id'' \<and>
   reply (post_bookings ''u1'' ''2023-10-14T08:00:00.000Z''
            \<lparr>req_timeslot_id = Some ''ts1'', req_full_name = Some ''Jane Doe'',
             req_email = Some ''jane@x.com'', req_phone = None,
             req_appointment_notes = None\<rparr> seed_db) = Failure 400 ''Timeslot already booked'' \<and>
   reply (post_bookings ''u1'' ''2023-10-14T08:00:00.000Z''
            \<lparr>req_timeslot_id = Some ''ts2'', req_full_name = Some ''Jane Doe'',
             req_email = Some ''jane@x.com'', req_phone = None,
             req_appointment_notes = None\<rparr> seed_db) =
     Ok (''u1'', \<lparr>bd_timeslot_id = ''ts2'', bd_full_name = ''Jane Doe'',
                  bd_email = ''jane@x.com'', bd_slot_date = ''2023-10-15'',
                  bd_start_time = ''09:30'', bd_end_time = ''10:00''\<rparr>) \<and>
   post_bookings ''u1'' ''2023-10-14T08:00:00.000Z''
     \<lparr>req_timeslot_id = Some ''ts2'', req_full_name = Some [CHR ''A'', CHR 0x00, CHR ''B''],
      req_email = Some ''jane@x.com'', req_phone = None,
      req_appointment_notes = None\<rparr> seed_db =
     \<lparr>db_after = seed_db, trace = [BEGIN, ROLLBACK],
      reply = Failure 500 ''Internal server error''\<rparr> \<and>
   post_bookings ''u1'' ''2023-10-14T08:00:00.000Z''
     \<lparr>req_timeslot_id = Some [CHR ''t'', CHR 0x00], req_full_name = Some ''Jane Doe'',
      req_email = Some ''jane@x.com'', req_phone = None,
      req_appointment_notes = None\<rparr> seed_db =
     \<lparr>db_after = seed_db, trace = [BEGIN, ROLLBACK],
      reply = Failure 500 ''Internal server error''\<rparr> \<and>
   post_bookings ''u1'' ''2023-10-14T08:00:00.000Z''
     \<lparr>req_timeslot_id = Some ''ts2'', req_full_name = Some ''Jane Doe'',
      req_email = Some ''jane@x.com'', req_phone = Some [CHR ''5'', CHR 0x00],
      req_appointment_notes = None\<rparr> seed_db =
     \<lparr>db_after = seed_db, trace = [BEGIN, ROLLBACK],
      reply = Failure 500 ''Internal server error''\<rparr>"
proof -
  let ?now = "''2023-10-14T08:00:00.000Z''"
  let ?req = "\<lambda>tid name. \<lparr>req_timeslot_id = Some tid, req_full_name = Some name,
             req_email = Some ''jane@x.com'', req_phone = None,
             req_appointment_notes = None\<rparr>"
  have v: "req_timeslot_id (?req tid name) = Some tid" "req_full_name (?req tid name) = Some name"
     "req_email (?req tid name) = Some ''jane@x.com''" "''jane@x.com'' \<noteq> []" for tid name
    by simp_all
  have n9: "''ts9'' \<noteq> []" and n1: "''ts1'' \<noteq> []" and n2: "''ts2'' \<noteq> []"
    and n0: "[CHR ''t'', CHR 0x00] \<noteq> []"
    and j: "''Jane Doe'' \<noteq> []" and ab: "[CHR ''A'', CHR 0x00, CHR ''B''] \<noteq> []" by simp_all
  have a: "\<not> has_nul ''ts9'' \<and> ''ts9'' \<notin> set (map timeslot_id (timeslots seed_db))"
    by (simp add: seed_db_def has_nul_def)
  have b: "\<not> has_nul ''ts1'' \<and> select_timeslot seed_db ''ts1'' = hd (timeslots seed_db) # [] \<and>
           is_booked (hd (timeslots seed_db))"
    by (simp add: seed_db_def select_timeslot_def has_nul_def)
  have c: "\<not> has_nul ''ts2'' \<and> select_timeslot seed_db ''ts2'' = (timeslots seed_db ! 1) # [] \<and>
      \<not> is_booked (timeslots seed_db ! 1) \<and>
      \<not> has_nul ''Jane Doe'' \<and> \<not> has_nul ''jane@x.com'' \<and>
      \<not> opt_has_nul (req_phone (?req ''ts2'' ''Jane Doe'')) \<and>
      \<not> opt_has_nul (req_appointment_notes (?req ''ts2'' ''Jane Doe'')) \<and>
      ''u1'' \<notin> set (map booking_id (bookings seed_db))"
    by (simp add: seed_db_def select_timeslot_def has_nul_def opt_has_nul_def)
  have d: "slot_date (timeslots seed_db ! 1) = ''2023-10-15'' \<and> start_time (timeslots seed_db ! 1) = ''09:30''
     \<and> end_time (timeslots seed_db ! 1) = ''10:00''"
    by (simp add: seed_db_def)
  have e: "\<not> has_nul ''ts2'' \<and> select_timeslot seed_db ''ts2'' = (timeslots seed_db ! 1) # [] \<and>
      \<not> is_booked (timeslots seed_db ! 1) \<and>
      (has_nul [CHR ''A'', CHR 0x00, CHR ''B''] \<or> has_nul ''jane@x.com'' \<or>
       opt_has_nul (req_phone (?req ''ts2'' [CHR ''A'', CHR 0x00, CHR ''B''])) \<or>
       opt_has_nul (req_appointment_notes (?req ''ts2'' [CHR ''A'', CHR 0x00, CHR ''B''])))"
    by (simp add: seed_db_def select_timeslot_def has_nul_def)
  have f: "has_nul [CHR ''t'', CHR 0x00]"
    by (simp add: has_nul_def)
  note t9 = create_booking_outcomes [OF v(1) n9 v(2) j v(3,4), of "''u1''" ?now seed_db]
  note t1 = create_booking_outcomes [OF v(1) n1 v(2) j v(3,4), of "''u1''" ?now seed_db]
  note t2 = create_booking_outcomes [OF v(1) n2 v(2) j v(3,4), of "''u1''" ?now seed_db]
  note t3 = create_booking_outcomes [OF v(1) n2 v(2) ab v(3,4), of "''u1''" ?now seed_db]
  note t4 = create_booking_outcomes [OF v(1) n0 v(2) j v(3,4), of "''u1''" ?now seed_db]
  have r9: "reply (post_bookings ''u1'' ?now (?req ''ts9'' ''Jane Doe'') seed_db) =
              Failure 400 ''Invalid timeslot_id''"
    using t9 [THEN conjunct2, THEN conjunct1] a by simp
  have r1: "reply (post_bookings ''u1'' ?now (?req ''ts1'' ''Jane Doe'') seed_db) =
              Failure 400 ''Timeslot already booked''"
    using t1 [THEN conjunct2, THEN conjunct2, THEN conjunct1, rule_format, OF b] by simp
  have r2: "reply (post_bookings ''u1'' ?now (?req ''ts2'' ''Jane Doe'') seed_db) =
     Ok (''u1'', \<lparr>bd_timeslot_id = ''ts2'', bd_full_name = ''Jane Doe'',
                  bd_email = ''jane@x.com'', bd_slot_date = ''2023-10-15'',
                  bd_start_time = ''09:30'', bd_end_time = ''10:00''\<rparr>)"
    using t2 [THEN conjunct2, THEN conjunct2, THEN conjunct2, THEN conjunct2, rule_format, OF c] d
    by simp
  have r3: "post_bookings ''u1'' ?now (?req ''ts2'' [CHR ''A'', CHR 0x00, CHR ''B'']) seed_db =
     \<lparr>db_after = seed_db, trace = [BEGIN, ROLLBACK],
      reply = Failure 500 ''Internal server error''\<rparr>"
    using t3 [THEN conjunct2, THEN conjunct2, THEN conjunct2, THEN conjunct1, rule_format, OF e] .
  have r4: "post_bookings ''u1'' ?now (?req [CHR ''t'', CHR 0x00] ''Jane Doe'') seed_db =
     \<lparr>db_after = seed_db, trace = [BEGIN, ROLLBACK],
      reply = Failure 500 ''Internal server error''\<rparr>"
    using t4 [THEN conjunct1] f by simp
  let ?rp = "\<lparr>req_timeslot_id = Some ''ts2'', req_full_name = Some ''Jane Doe'',
      req_email = Some ''jane@x.com'', req_phone = Some [CHR ''5'', CHR 0x00],
      req_appointment_notes = None\<rparr>"
  have vp: "req_timeslot_id ?rp = Some ''ts2''" "req_full_name ?rp = Some ''Jane Doe''"
    "req_email ?rp = Some ''jane@x.com''"
    by simp_all
  have g: "\<not> has_nul ''ts2'' \<and> select_timeslot seed_db ''ts2'' = (timeslots seed_db ! 1) # [] \<and>
      \<not> is_booked (timeslots seed_db ! 1) \<and>
      (has_nul ''Jane Doe'' \<or> has_nul ''jane@x.com'' \<or> opt_has_nul (req_phone ?rp) \<or>
       opt_has_nul (req_appointment_notes ?rp))"
    by (simp add: seed_db_def select_timeslot_def has_nul_def opt_has_nul_def)
  have r5: "post_bookings ''u1'' ?now ?rp seed_db =
     \<lparr>db_after = seed_db, trace = [BEGIN, ROLLBACK],
      reply = Failure 500 ''Internal server error''\<rparr>"
    using create_booking_outcomes
      [OF vp(1) n2 vp(2) j vp(3) v(4), of "''u1''" ?now seed_db, THEN conjunct2, THEN conjunct2,
       THEN conjunct2, THEN conjunct1, rule_format, OF g] .
  show ?thesis using r9 r1 r2 r3 r4 r5 by simp
qed

section \<open>CancelBooking\<close>

lemma select_booking_update_status:
  "select_booking (update_booking_status v bid st) bid =
     map (\<lambda>b. b\<lparr>booking_status := v\<rparr>) (select_booking st bid)"
proof -
  have "filter (\<lambda>b. booking_id b = bid)
          (map (\<lambda>b. if booking_id b = bid then b\<lparr>booking_status := v\<rparr> else b) xs) =
        map (\<lambda>b. b\<lparr>booking_status := v\<rparr>) (filter (\<lambda>b. booking_id b = bid) xs)"
    for xs :: "booking list"
    by (induction xs) auto
  then show ?thesis
    by (simp add: select_booking_def update_booking_status_def)
qed

lemma put_cancel_refused:
  "has_nul bid \<Longrightarrow>
     put_cancel bid st =
       \<lparr>db_after = st, trace = [BEGIN, ROLLBACK],
        reply = Failure 500 ''Internal server error''\<rparr>"
  by (simp add: put_cancel_def)

lemma put_cancel_not_found:
  "\<not> has_nul bid \<Longrightarrow> bid \<notin> set (map booking_id (bookings st)) \<Longrightarrow>
     put_cancel bid st =
       \<lparr>db_after = st, trace = [BEGIN, ROLLBACK], reply = Failure 400 ''Booking not found''\<rparr>"
  using select_booking_empty [of st bid] by (simp add: put_cancel_def)

lemma put_cancel_canceled:
  "\<not> has_nul bid \<Longrightarrow> select_booking st bid = b # rest \<Longrightarrow> booking_status b = ''canceled'' \<Longrightarrow>
     put_cancel bid st =
       \<lparr>db_after = st, trace = [BEGIN, ROLLBACK],
        reply = Failure 400 ''Booking is already canceled''\<rparr>"
  by (simp add: put_cancel_def)

lemma put_cancel_commit:
  "\<not> has_nul bid \<Longrightarrow> select_booking st bid = b # rest \<Longrightarrow> booking_status b \<noteq> ''canceled'' \<Longrightarrow>
     db_after (put_cancel bid st) =
       update_is_booked False (b_timeslot_id b) (update_booking_status ''canceled'' bid st) \<and>
     reply (put_cancel bid st) = Ok ''Booking canceled and timeslot updated successfully''"
  by (simp add: put_cancel_def Let_def)

lemma put_cancel_twice:
  assumes nn: "\<not> has_nul bid" and "bid \<in> set (map booking_id (bookings st))"
  shows "put_cancel bid (db_after (put_cancel bid st)) =
           \<lparr>db_after = db_after (put_cancel bid st), trace = [BEGIN, ROLLBACK],
            reply = Failure 400 ''Booking is already canceled''\<rparr>"
proof -
  from assms obtain b rest where sel: "select_booking st bid = b # rest"
    using select_booking_empty [of st bid] by (cases "select_booking st bid") auto
  show ?thesis
  proof (cases "booking_status b = ''canceled''")
    case True
    then show ?thesis
      using sel by (simp add: put_cancel_canceled [OF nn sel True])
  next
    case False
    have sel': "select_booking (db_after (put_cancel bid st)) bid =
            b\<lparr>booking_status := ''canceled''\<rparr> # map (\<lambda>b. b\<lparr>booking_status := ''canceled''\<rparr>) rest"
      using put_cancel_commit [OF nn sel False]
        select_booking_update_status [of "''canceled''" bid st] sel
      by (simp add: select_booking_def update_is_booked_bookings)
    show ?thesis
      by (rule put_cancel_canceled [OF nn sel']) simp
  qed
qed

text \<open>
  C4. A NUL byte in the booking id makes the locked read raise: the reply is 500 and
  nothing changes. Without one: when no booking has the id the handler answers ``Booking
  not found'' (NotFound). When the booking it reads is already canceled it answers
  ``Booking is already canceled'' (Conflict) and the tables are those of the start. When
  the booking is active, its status becomes canceled and the booked flag of the slot it
  references becomes false. A second cancellation of an id that exists answers Conflict
  and changes nothing.
\<close>

theorem cancel_booking_outcomes:
  "(has_nul bid \<longrightarrow>
      put_cancel bid st =
        \<lparr>db_after = st, trace = [BEGIN, ROLLBACK],
         reply = Failure 500 ''Internal server error''\<rparr>) \<and>
   (\<not> has_nul bid \<and> bid \<notin> set (map booking_id (bookings st)) \<longrightarrow>
      put_cancel bid st =
        \<lparr>db_after = st, trace = [BEGIN, ROLLBACK], reply = Failure 400 ''Booking not found''\<rparr> \<and>
      error_kind (reply (put_cancel bid st)) = Some NotFound) \<and>
   (\<forall>b rest. \<not> has_nul bid \<and> select_booking st bid = b # rest \<and>
      booking_status b = ''canceled'' \<longrightarrow>
      put_cancel bid st =
        \<lparr>db_after = st, trace = [BEGIN, ROLLBACK],
         reply = Failure 400 ''Booking is already canceled''\<rparr> \<and>
      error_kind (reply (put_cancel bid st)) = Some Conflict) \<and>
   (\<forall>b rest. \<not> has_nul bid \<and> select_booking st bid = b # rest \<and>
      booking_status b = ''active'' \<longrightarrow>
      reply (put_cancel bid st) = Ok ''Booking canceled and timeslot updated successfully'' \<and>
      db_after (put_cancel bid st) =
        \<lparr>timeslots =
           map (\<lambda>t. if timeslot_id t = b_timeslot_id b then t\<lparr>is_booked := False\<rparr> else t)
             (timeslots st),
         bookings =
           map (\<lambda>x. if booking_id x = bid then x\<lparr>booking_status := ''canceled''\<rparr> else x)
             (bookings st)\<rparr>) \<and>
   (\<not> has_nul bid \<and> bid \<in> set (map booking_id (bookings st)) \<longrightarrow>
      put_cancel bid (db_after (put_cancel bid st)) =
        \<lparr>db_after = db_after (put_cancel bid st), trace = [BEGIN, ROLLBACK],
         reply = Failure 400 ''Booking is already canceled''\<rparr> \<and>
      error_kind (reply (put_cancel bid (db_after (put_cancel bid st)))) = Some Conflict)"
proof (intro conjI allI impI)
  assume "has_nul bid"
  then show "put_cancel bid st =
        \<lparr>db_after = st, trace = [BEGIN, ROLLBACK],
         reply = Failure 500 ''Internal server error''\<rparr>"
    by (rule put_cancel_refused)
next
  assume a: "\<not> has_nul bid \<and> bid \<notin> set (map booking_id (bookings st))"
  show "put_cancel bid st =
        \<lparr>db_after = st, trace = [BEGIN, ROLLBACK], reply = Failure 400 ''Booking not found''\<rparr>"
    by (rule put_cancel_not_found [OF conjunct1 [OF a] conjunct2 [OF a]])
  then show "error_kind (reply (put_cancel bid st)) = Some NotFound"
    by (simp add: error_kind_def kind_of_message_def)
next
  fix b rest
  assume a: "\<not> has_nul bid \<and> select_booking st bid = b # rest \<and> booking_status b = ''canceled''"
  show "put_cancel bid st =
        \<lparr>db_after = st, trace = [BEGIN, ROLLBACK],
         reply = Failure 400 ''Booking is already canceled''\<rparr>"
    using a by (simp add: put_cancel_canceled)
  then show "error_kind (reply (put_cancel bid st)) = Some Conflict"
    by (simp add: error_kind_def kind_of_message_def)
next
  fix b rest
  assume a: "\<not> has_nul bid \<and> select_booking st bid = b # rest \<and> booking_status b = ''active''"
  then have n: "booking_status b \<noteq> ''canceled''" by simp
  from a have sel: "select_booking st bid = b # rest" and nn: "\<not> has_nul bid" by simp_all
  show "reply (put_cancel bid st) = Ok ''Booking canceled and timeslot updated successfully''"
    using put_cancel_commit [OF nn sel n] by simp
  show "db_after (put_cancel bid st) =
        \<lparr>timeslots =
           map (\<lambda>t. if timeslot_id t = b_timeslot_id b then t\<lparr>is_booked := False\<rparr> else t)
             (timeslots st),
         bookings =
           map (\<lambda>x. if booking_id x = bid then x\<lparr>booking_status := ''canceled''\<rparr> else x)
             (bookings st)\<rparr>"
    using put_cancel_commit [OF nn sel n]
    by (simp add: update_is_booked_def update_booking_status_def)
next
  assume a: "\<not> has_nul bid \<and> bid \<in> set (map booking_id (bookings st))"
  show "put_cancel bid (db_after (put_cancel bid st)) =
        \<lparr>db_after = db_after (put_cancel bid st), trace = [BEGIN, ROLLBACK],
         reply = Failure 400 ''Booking is already canceled''\<rparr>"
    by (rule put_cancel_twice [OF conjunct1 [OF a] conjunct2 [OF a]])
  then show "error_kind (reply (put_cancel bid (db_after (put_cancel bid st)))) = Some Conflict"
    by (simp add: error_kind_def kind_of_message_def)
qed

theorem cancel_booking_outcomes_witness:
  "reply (put_cancel ''booking9'' seed_db) = Failure 400 ''Booking not found'' \<and>
   reply (put_cancel ''booking3'' seed_db) = Failure 400 ''Booking is already canceled'' \<and>
   db_after (put_cancel ''booking3'' seed_db) = seed_db \<and>
   reply (put_cancel ''booking1'' seed_db) =
     Ok ''Booking canceled and timeslot updated successfully'' \<and>
   map is_booked (timeslots (db_after (put_cancel ''booking1'' seed_db))) =
     [False, False, True, False, False, False, False] \<and>
   map booking_status (bookings (db_after (put_cancel ''booking1'' seed_db))) =
     [''canceled'', ''active'', ''canceled''] \<and>
   reply (put_cancel ''booking1'' (db_after (put_cancel ''booking1'' seed_db))) =
     Failure 400 ''Booking is already canceled'' \<and>
   put_cancel [CHR ''b'', CHR 0x00] seed_db =
     \<lparr>db_after = seed_db, trace = [BEGIN, ROLLBACK],
      reply = Failure 500 ''Internal server error''\<rparr>"
proof -
  have a: "\<not> has_nul ''booking9'' \<and> ''booking9'' \<notin> set (map booking_id (bookings seed_db))"
    by (simp add: seed_db_def has_nul_def)
  have b: "\<not> has_nul ''booking3'' \<and>
           select_booking seed_db ''booking3'' = (bookings seed_db ! 2) # [] \<and>
           booking_status (bookings seed_db ! 2) = ''canceled''"
    by (simp add: seed_db_def select_booking_def has_nul_def)
  have c: "\<not> has_nul ''booking1'' \<and>
           select_booking seed_db ''booking1'' = (bookings seed_db ! 0) # [] \<and>
           booking_status (bookings seed_db ! 0) = ''active''"
    by (simp add: seed_db_def select_booking_def has_nul_def)
  have d: "\<not> has_nul ''booking1'' \<and> ''booking1'' \<in> set (map booking_id (bookings seed_db))"
    by (simp add: seed_db_def has_nul_def)
  have e: "b_timeslot_id (bookings seed_db ! 0) = ''ts1''"
    by (simp add: seed_db_def)
  have f: "has_nul [CHR ''b'', CHR 0x00]"
    by (simp add: has_nul_def)
  have r9: "reply (put_cancel ''booking9'' seed_db) = Failure 400 ''Booking not found''"
    using cancel_booking_outcomes [of "''booking9''" seed_db, THEN conjunct2, THEN conjunct1] a
    by simp
  have r3: "reply (put_cancel ''booking3'' seed_db) = Failure 400 ''Booking is already canceled'' \<and>
            db_after (put_cancel ''booking3'' seed_db) = seed_db"
    using cancel_booking_outcomes
      [of "''booking3''" seed_db, THEN conjunct2, THEN conjunct2, THEN conjunct1, rule_format,
       OF b]
    by simp
  note r1 = cancel_booking_outcomes
      [of "''booking1''" seed_db, THEN conjunct2, THEN conjunct2, THEN conjunct2,
       THEN conjunct1, rule_format, OF c]
  have r1a: "map is_booked (timeslots (db_after (put_cancel ''booking1'' seed_db))) =
     [False, False, True, False, False, False, False]"
    by (simp add: r1 e) (simp add: seed_db_def)
  have r1b: "map booking_status (bookings (db_after (put_cancel ''booking1'' seed_db))) =
     [''canceled'', ''active'', ''canceled'']"
    by (simp add: r1 e) (simp add: seed_db_def)
  have r2: "reply (put_cancel ''booking1'' (db_after (put_cancel ''booking1'' seed_db))) =
     Failure 400 ''Booking is already canceled''"
    using cancel_booking_outcomes
      [of "''booking1''" seed_db, THEN conjunct2, THEN conjunct2, THEN conjunct2,
       THEN conjunct2] d
    by simp
  have r0: "put_cancel [CHR ''b'', CHR 0x00] seed_db =
     \<lparr>db_after = seed_db, trace = [BEGIN, ROLLBACK],
      reply = Failure 500 ''Internal server error''\<rparr>"
    using cancel_booking_outcomes [of "[CHR ''b'', CHR 0x00]" seed_db, THEN conjunct1] f
    by simp
  show ?thesis using r9 r3 r1 r1a r1b r2 r0 by simp
qed

section \<open>The booked flag and the active bookings\<close>

lemma seed_db_consistent: "consistent seed_db"
  by (simp add: consistent_def fk_timeslot_def booked_iff_active_def seed_db_def)

lemma consistent_pk: "consistent st \<Longrightarrow> distinct (map booking_id (bookings st))"
  by (simp add: consistent_def)

lemma consistent_fk:
  "consistent st \<Longrightarrow> b \<in> set (bookings st) \<Longrightarrow>
     b_timeslot_id b \<in> set (map timeslot_id (timeslots st))"
  by (simp add: consistent_def fk_timeslot_def)

lemma consistent_status:
  "consistent st \<Longrightarrow> b \<in> set (bookings st) \<Longrightarrow>
     booking_status b = ''active'' \<or> booking_status b = ''canceled''"
  by (simp add: consistent_def)

lemma consistent_one:
  "consistent st \<Longrightarrow> b \<in> set (bookings st) \<Longrightarrow> b' \<in> set (bookings st) \<Longrightarrow>
     b_timeslot_id b = b_timeslot_id b' \<Longrightarrow> booking_status b = ''active'' \<Longrightarrow>
     booking_status b' = ''active'' \<Longrightarrow> booking_id b = booking_id b'"
  unfolding consistent_def by blast

lemma consistent_inv:
  "consistent st \<Longrightarrow> t \<in> set (timeslots st) \<Longrightarrow>
     is_booked t \<longleftrightarrow>
       (\<exists>b \<in> set (bookings st). b_timeslot_id b = timeslot_id t \<and> booking_status b = ''active'')"
  unfolding consistent_def booked_iff_active_def by blast

lemma consistentI:
  assumes "distinct (map booking_id (bookings st))"
    and "\<And>b. b \<in> set (bookings st) \<Longrightarrow> b_timeslot_id b \<in> set (map timeslot_id (timeslots st))"
    and "\<And>b. b \<in> set (bookings st) \<Longrightarrow>
           booking_status b = ''active'' \<or> booking_status b = ''canceled''"
    and "\<And>b b'. b \<in> set (bookings st) \<Longrightarrow> b' \<in> set (bookings st) \<Longrightarrow>
           b_timeslot_id b = b_timeslot_id b' \<Longrightarrow> booking_status b = ''active'' \<Longrightarrow>
           booking_status b' = ''active'' \<Longrightarrow> booking_id b = booking_id b'"
    and "\<And>t. t \<in> set (timeslots st) \<Longrightarrow>
           is_booked t \<longleftrightarrow>
             (\<exists>b \<in> set (bookings st).
                b_timeslot_id b = timeslot_id t \<and> booking_status b = ''active'')"
  shows "consistent st"
  unfolding consistent_def fk_timeslot_def booked_iff_active_def
  using assms by blast

lemma post_bookings_db_after:
  "db_after (post_bookings uuid now req st) = st \<or>
   (\<exists>t nb. t \<in> set (timeslots st) \<and> \<not> is_booked t \<and>
      booking_id nb \<notin> set (map booking_id (bookings st)) \<and>
      b_timeslot_id nb = timeslot_id t \<and> booking_status nb = ''active'' \<and>
      db_after (post_bookings uuid now req st) =
        \<lparr>timeslots =
           map (\<lambda>x. if timeslot_id x = timeslot_id t then x\<lparr>is_booked := True\<rparr> else x)
             (timeslots st),
         bookings = bookings st @ [nb]\<rparr>)"
proof (cases "falsy (req_timeslot_id req) \<or> falsy (req_full_name req) \<or> falsy (req_email req)")
  case True
  then show ?thesis by (simp add: post_bookings_def)
next
  case False
  let ?tid = "or_else (req_timeslot_id req) []"
  show ?thesis
  proof (cases "select_timeslot st ?tid")
    case Nil
    then show ?thesis using False by (simp add: post_bookings_def Let_def)
  next
    case (Cons t rest)
    note sel = select_timeslot_Cons [OF Cons]
    show ?thesis
    proof (cases "is_booked t")
      case True
      then show ?thesis using False Cons by (simp add: post_bookings_def Let_def)
    next
      case nb: False
      let ?b = "\<lparr>booking_id = uuid, b_timeslot_id = ?tid,
                 full_name = or_else (req_full_name req) [],
                 email = or_else (req_email req) [], phone = or_null (req_phone req),
                 appointment_notes = or_null (req_appointment_notes req),
                 booking_status = ''active'', created_at = now\<rparr>"
      show ?thesis
      proof (cases "insert_booking ?b (update_is_booked True ?tid st)")
        case None
        then show ?thesis using False Cons nb by (simp add: post_bookings_def Let_def)
      next
        case (Some st')
        then have fresh: "uuid \<notin> set (map booking_id (bookings st))"
          and st': "st' = \<lparr>timeslots =
                 map (\<lambda>x. if timeslot_id x = ?tid then x\<lparr>is_booked := True\<rparr> else x)
                   (timeslots st),
               bookings = bookings st @ [?b]\<rparr>"
          by (auto simp: insert_booking_def update_is_booked_def split: if_splits)
        have "db_after (post_bookings uuid now req st) = st \<or>
              db_after (post_bookings uuid now req st) = st'"
          using False Cons nb Some by (simp add: post_bookings_def Let_def)
        then show ?thesis
        proof
          assume "db_after (post_bookings uuid now req st) = st"
          then show ?thesis by simp
        next
          assume "db_after (post_bookings uuid now req st) = st'"
          then show ?thesis
            using sel nb fresh st' by (intro disjI2 exI [of _ t] exI [of _ ?b]) simp
        qed
      qed
    qed
  qed
qed

lemma booking_preserves_consistent:
  assumes c: "consistent st" and t: "t \<in> set (timeslots st)" and free: "\<not> is_booked t"
    and fresh: "booking_id nb \<notin> set (map booking_id (bookings st))"
    and ref: "b_timeslot_id nb = timeslot_id t" and act: "booking_status nb = ''active''"
  shows "consistent
           \<lparr>timeslots =
              map (\<lambda>x. if timeslot_id x = timeslot_id t then x\<lparr>is_booked := True\<rparr> else x)
                (timeslots st),
            bookings = bookings st @ [nb]\<rparr>"
    (is "consistent ?st'")
proof (rule consistentI)
  have none: "\<And>b. b \<in> set (bookings st) \<Longrightarrow> b_timeslot_id b = timeslot_id t \<Longrightarrow>
                booking_status b \<noteq> ''active''"
    using consistent_inv [OF c t] free by blast
  have ids: "map timeslot_id (timeslots ?st') = map timeslot_id (timeslots st)"
    by (simp add: comp_def if_distrib cong: if_cong)
  have bs: "set (bookings ?st') = insert nb (set (bookings st))"
    by simp
  show "distinct (map booking_id (bookings ?st'))"
    using consistent_pk [OF c] fresh by simp
  show "b_timeslot_id b \<in> set (map timeslot_id (timeslots ?st'))" if "b \<in> set (bookings ?st')" for b
  proof -
    have "b_timeslot_id b \<in> set (map timeslot_id (timeslots st))"
      using that consistent_fk [OF c, of b] t ref unfolding bs by auto
    then show ?thesis unfolding ids .
  qed
  show "booking_status b = ''active'' \<or> booking_status b = ''canceled''"
    if "b \<in> set (bookings ?st')" for b
    using that consistent_status [OF c, of b] act unfolding bs by auto
  show "booking_id b = booking_id b'"
    if h: "b \<in> set (bookings ?st')" "b' \<in> set (bookings ?st')"
      "b_timeslot_id b = b_timeslot_id b'" "booking_status b = ''active''"
      "booking_status b' = ''active''" for b b'
  proof -
    consider "b = nb" "b' = nb" | "b = nb" "b' \<in> set (bookings st)"
      | "b \<in> set (bookings st)" "b' = nb" | "b \<in> set (bookings st)" "b' \<in> set (bookings st)"
      using h(1,2) unfolding bs by blast
    then show ?thesis
    proof cases
      case 1 then show ?thesis by simp
    next
      case 2 then show ?thesis using none [of b'] h ref by simp
    next
      case 3 then show ?thesis using none [of b] h ref by simp
    next
      case 4 then show ?thesis using consistent_one [OF c] h by blast
    qed
  qed
  show "is_booked x \<longleftrightarrow>
          (\<exists>b \<in> set (bookings ?st').
             b_timeslot_id b = timeslot_id x \<and> booking_status b = ''active'')"
    if "x \<in> set (timeslots ?st')" for x
  proof -
    from that obtain y where y: "y \<in> set (timeslots st)"
      and x: "x = (if timeslot_id y = timeslot_id t then y\<lparr>is_booked := True\<rparr> else y)"
      by auto
    show ?thesis
    proof (cases "timeslot_id y = timeslot_id t")
      case True
      then have "is_booked x" "timeslot_id x = b_timeslot_id nb" using x ref by simp_all
      then show ?thesis using act unfolding bs by simp
    next
      case False
      then have "x = y" using x by simp
      then show ?thesis
        using consistent_inv [OF c y] False ref unfolding bs by auto
    qed
  qed
qed

lemma post_bookings_consistent:
  "consistent st \<Longrightarrow> consistent (db_after (post_bookings uuid now req st))"
proof -
  assume c: "consistent st"
  from post_bookings_db_after [of uuid now req st] show ?thesis
  proof (elim disjE exE conjE)
    assume "db_after (post_bookings uuid now req st) = st"
    then show ?thesis using c by simp
  next
    fix t nb
    assume "t \<in> set (timeslots st)" "\<not> is_booked t"
      "booking_id nb \<notin> set (map booking_id (bookings st))"
      "b_timeslot_id nb = timeslot_id t" "booking_status nb = ''active''"
      and eq: "db_after (post_bookings uuid now req st) =
        \<lparr>timeslots =
           map (\<lambda>x. if timeslot_id x = timeslot_id t then x\<lparr>is_booked := True\<rparr> else x)
             (timeslots st),
         bookings = bookings st @ [nb]\<rparr>"
    then show ?thesis
      unfolding eq by (intro booking_preserves_consistent [OF c])
  qed
qed

lemma put_cancel_db_after:
  "db_after (put_cancel bid st) = st \<or>
   (\<exists>b. b \<in> set (bookings st) \<and> booking_id b = bid \<and> booking_status b \<noteq> ''canceled'' \<and>
      db_after (put_cancel bid st) =
        \<lparr>timeslots =
           map (\<lambda>t. if timeslot_id t = b_timeslot_id b then t\<lparr>is_booked := False\<rparr> else t)
             (timeslots st),
         bookings =
           map (\<lambda>x. if booking_id x = bid then x\<lparr>booking_status := ''canceled''\<rparr> else x)
             (bookings st)\<rparr>)"
proof (cases "has_nul bid")
  case True
  then show ?thesis by (simp add: put_cancel_refused)
next
  case nn: False
  show ?thesis
  proof (cases "select_booking st bid")
    case Nil
    then show ?thesis using nn by (simp add: put_cancel_def)
  next
    case (Cons b rest)
    note sel = select_booking_Cons [OF Cons]
    show ?thesis
    proof (cases "booking_status b = ''canceled''")
      case True
      then show ?thesis using Cons nn by (simp add: put_cancel_def)
    next
      case False
      have "db_after (put_cancel bid st) =
          \<lparr>timeslots =
             map (\<lambda>t. if timeslot_id t = b_timeslot_id b then t\<lparr>is_booked := False\<rparr> else t)
               (timeslots st),
           bookings =
             map (\<lambda>x. if booking_id x = bid then x\<lparr>booking_status := ''canceled''\<rparr> else x)
               (bookings st)\<rparr>"
        using put_cancel_commit [OF nn Cons False]
        by (simp add: update_is_booked_def update_booking_status_def)
      then show ?thesis using sel False by blast
    qed
  qed
qed

lemma cancel_preserves_consistent:
  assumes c: "consistent st" and b: "b \<in> set (bookings st)"
    and live: "booking_status b \<noteq> ''canceled''"
  shows "consistent
           \<lparr>timeslots =
              map (\<lambda>t. if timeslot_id t = b_timeslot_id b then t\<lparr>is_booked := False\<rparr> else t)
                (timeslots st),
            bookings =
              map (\<lambda>x. if booking_id x = booking_id b then x\<lparr>booking_status := ''canceled''\<rparr>
                        else x)
                (bookings st)\<rparr>"
    (is "consistent ?st'")
proof (rule consistentI)
  let ?f = "\<lambda>x. if booking_id x = booking_id b then x\<lparr>booking_status := ''canceled''\<rparr> else x"
  have act: "booking_status b = ''active''"
    using consistent_status [OF c b] live by simp
  have tids: "map timeslot_id (timeslots ?st') = map timeslot_id (timeslots st)"
    by (simp add: comp_def if_distrib cong: if_cong)
  have bids: "map booking_id (bookings ?st') = map booking_id (bookings st)"
    by (simp add: comp_def if_distrib cong: if_cong)
  have same: "x = b" if "x \<in> set (bookings st)" "booking_id x = booking_id b" for x
    using consistent_pk [OF c] that b by (meson distinct_map inj_onD)
  have img: "\<exists>y \<in> set (bookings st). x = ?f y" if "x \<in> set (bookings ?st')" for x
    using that by auto
  have was_active: "y \<in> set (bookings st) \<and> booking_id y \<noteq> booking_id b \<and>
                    booking_status y = ''active'' \<and> x = y"
    if "y \<in> set (bookings st)" "x = ?f y" "booking_status x = ''active''" for x y
    using that by (cases "booking_id y = booking_id b") simp_all
  show "distinct (map booking_id (bookings ?st'))"
    using consistent_pk [OF c] unfolding bids .
  show "b_timeslot_id x \<in> set (map timeslot_id (timeslots ?st'))" if "x \<in> set (bookings ?st')" for x
  proof -
    from img [OF that] obtain y where y: "y \<in> set (bookings st)" "x = ?f y" by blast
    then have "b_timeslot_id x = b_timeslot_id y" by simp
    then show ?thesis using consistent_fk [OF c y(1)] unfolding tids by simp
  qed
  show "booking_status x = ''active'' \<or> booking_status x = ''canceled''"
    if "x \<in> set (bookings ?st')" for x
  proof -
    from img [OF that] obtain y where y: "y \<in> set (bookings st)" "x = ?f y" by blast
    then show ?thesis using consistent_status [OF c y(1)] by (cases "booking_id y = booking_id b") simp_all
  qed
  show "booking_id x = booking_id x'"
    if h: "x \<in> set (bookings ?st')" "x' \<in> set (bookings ?st')"
      "b_timeslot_id x = b_timeslot_id x'" "booking_status x = ''active''"
      "booking_status x' = ''active''" for x x'
  proof -
    from img [OF h(1)] obtain y where y: "y \<in> set (bookings st)" "x = ?f y" by blast
    from img [OF h(2)] obtain y' where y': "y' \<in> set (bookings st)" "x' = ?f y'" by blast
    have "x \<in> set (bookings st)" "booking_status x = ''active''"
      using was_active [OF y h(4)] by simp_all
    moreover have "x' \<in> set (bookings st)" "booking_status x' = ''active''"
      using was_active [OF y' h(5)] by simp_all
    ultimately show ?thesis using consistent_one [OF c _ _ h(3)] by blast
  qed
  show "is_booked t \<longleftrightarrow>
          (\<exists>x \<in> set (bookings ?st').
             b_timeslot_id x = timeslot_id t \<and> booking_status x = ''active'')"
    if "t \<in> set (timeslots ?st')" for t
  proof -
    from that obtain u where u: "u \<in> set (timeslots st)"
      and t: "t = (if timeslot_id u = b_timeslot_id b then u\<lparr>is_booked := False\<rparr> else u)"
      by auto
    show ?thesis
    proof (cases "timeslot_id u = b_timeslot_id b")
      case True
      have "\<not> (\<exists>x \<in> set (bookings ?st').
                 b_timeslot_id x = timeslot_id t \<and> booking_status x = ''active'')"
      proof
        assume "\<exists>x \<in> set (bookings ?st').
                 b_timeslot_id x = timeslot_id t \<and> booking_status x = ''active''"
        then obtain x where x: "x \<in> set (bookings ?st')" "b_timeslot_id x = timeslot_id t"
          "booking_status x = ''active''" by blast
        from img [OF x(1)] obtain y where y: "y \<in> set (bookings st)" "x = ?f y" by blast
        from was_active [OF y x(3)] have ya: "booking_id y \<noteq> booking_id b"
          "booking_status y = ''active''" "x = y" by simp_all
        have "b_timeslot_id y = b_timeslot_id b" using x(2) ya(3) t True by simp
        then have "booking_id y = booking_id b"
          using consistent_one [OF c y(1) b _ ya(2) act] by simp
        then show False using ya(1) by simp
      qed
      moreover have "\<not> is_booked t" using t True by simp
      ultimately show ?thesis by simp
    next
      case False
      then have tu: "t = u" using t by simp
      have "(\<exists>x \<in> set (bookings ?st').
                 b_timeslot_id x = timeslot_id u \<and> booking_status x = ''active'') \<longleftrightarrow>
            (\<exists>y \<in> set (bookings st).
                 b_timeslot_id y = timeslot_id u \<and> booking_status y = ''active'')"
      proof
        assume "\<exists>x \<in> set (bookings ?st').
                 b_timeslot_id x = timeslot_id u \<and> booking_status x = ''active''"
        then obtain x where x: "x \<in> set (bookings ?st')" "b_timeslot_id x = timeslot_id u"
          "booking_status x = ''active''" by blast
        from img [OF x(1)] obtain y where y: "y \<in> set (bookings st)" "x = ?f y" by blast
        from was_active [OF y x(3)] x(2) show "\<exists>y \<in> set (bookings st).
                 b_timeslot_id y = timeslot_id u \<and> booking_status y = ''active''" by blast
      next
        assume "\<exists>y \<in> set (bookings st).
                 b_timeslot_id y = timeslot_id u \<and> booking_status y = ''active''"
        then obtain y where y: "y \<in> set (bookings st)" "b_timeslot_id y = timeslot_id u"
          "booking_status y = ''active''" by blast
        have "booking_id y \<noteq> booking_id b"
          using same [OF y(1)] y(2) False by auto
        then have "?f y = y" by simp
        moreover have "?f y \<in> set (bookings ?st')" using y(1) by simp
        ultimately have "y \<in> set (bookings ?st')" by simp
        then show "\<exists>x \<in> set (bookings ?st').
                 b_timeslot_id x = timeslot_id u \<and> booking_status x = ''active''"
          using y(2,3) by blast
      qed
      then show ?thesis using consistent_inv [OF c u] tu by simp
    qed
  qed
qed

lemma put_cancel_consistent:
  "consistent st \<Longrightarrow> consistent (db_after (put_cancel bid st))"
proof -
  assume c: "consistent st"
  from put_cancel_db_after [of bid st] show ?thesis
  proof (elim disjE exE conjE)
    assume "db_after (put_cancel bid st) = st"
    then show ?thesis using c by simp
  next
    fix b
    assume b: "b \<in> set (bookings st)" "booking_id b = bid" "booking_status b \<noteq> ''canceled''"
      and eq: "db_after (put_cancel bid st) =
        \<lparr>timeslots =
           map (\<lambda>t. if timeslot_id t = b_timeslot_id b then t\<lparr>is_booked := False\<rparr> else t)
             (timeslots st),
         bookings =
           map (\<lambda>x. if booking_id x = bid then x\<lparr>booking_status := ''canceled''\<rparr> else x)
             (bookings st)\<rparr>"
    show ?thesis
      unfolding eq using cancel_preserves_consistent [OF c b(1,3)] b(2) by simp
  qed
qed

lemma post_timeslots_db_after:
  "db_after (post_timeslots uuid req st) = st \<or>
   (\<exists>new. timeslot_id new \<notin> set (map timeslot_id (timeslots st)) \<and> \<not> is_booked new \<and>
      db_after (post_timeslots uuid req st) = st\<lparr>timeslots := timeslots st @ [new]\<rparr>)"
proof -
  let ?new = "\<lparr>timeslot_id = uuid, slot_date = or_else (req_slot_date req) [],
               start_time = or_else (req_start_time req) [],
               end_time = or_else (req_end_time req) [], is_booked = False\<rparr>"
  show ?thesis
  proof (cases "insert_timeslot ?new st")
    case None
    then show ?thesis by (simp add: post_timeslots_def Let_def)
  next
    case (Some st')
    then have st': "timeslot_id ?new \<notin> set (map timeslot_id (timeslots st))"
      "st' = st\<lparr>timeslots := timeslots st @ [?new]\<rparr>"
      by (auto simp: insert_timeslot_def split: if_splits)
    have "db_after (post_timeslots uuid req st) = st \<or> db_after (post_timeslots uuid req st) = st'"
      using Some by (simp add: post_timeslots_def Let_def)
    then show ?thesis
    proof
      assume "db_after (post_timeslots uuid req st) = st"
      then show ?thesis by simp
    next
      assume "db_after (post_timeslots uuid req st) = st'"
      then have "timeslot_id ?new \<notin> set (map timeslot_id (timeslots st)) \<and> \<not> is_booked ?new \<and>
        db_after (post_timeslots uuid req st) = st\<lparr>timeslots := timeslots st @ [?new]\<rparr>"
        using st' by simp
      then show ?thesis by blast
    qed
  qed
qed

lemma insert_slot_preserves_consistent:
  assumes c: "consistent st" and fresh: "timeslot_id new \<notin> set (map timeslot_id (timeslots st))"
    and free: "\<not> is_booked new"
  shows "consistent (st\<lparr>timeslots := timeslots st @ [new]\<rparr>)"
proof (rule consistentI)
  show "distinct (map booking_id (bookings (st\<lparr>timeslots := timeslots st @ [new]\<rparr>)))"
    using consistent_pk [OF c] by simp
  show "b_timeslot_id b \<in> set (map timeslot_id (timeslots (st\<lparr>timeslots := timeslots st @ [new]\<rparr>)))"
    if "b \<in> set (bookings (st\<lparr>timeslots := timeslots st @ [new]\<rparr>))" for b
    using consistent_fk [OF c, of b] that by simp
  show "booking_status b = ''active'' \<or> booking_status b = ''canceled''"
    if "b \<in> set (bookings (st\<lparr>timeslots := timeslots st @ [new]\<rparr>))" for b
    using consistent_status [OF c, of b] that by simp
  show "booking_id b = booking_id b'"
    if "b \<in> set (bookings (st\<lparr>timeslots := timeslots st @ [new]\<rparr>))"
      "b' \<in> set (bookings (st\<lparr>timeslots := timeslots st @ [new]\<rparr>))"
      "b_timeslot_id b = b_timeslot_id b'" "booking_status b = ''active''"
      "booking_status b' = ''active''" for b b'
    using consistent_one [OF c, of b b'] that by simp
  show "is_booked t \<longleftrightarrow>
          (\<exists>b \<in> set (bookings (st\<lparr>timeslots := timeslots st @ [new]\<rparr>)).
             b_timeslot_id b = timeslot_id t \<and> booking_status b = ''active'')"
    if "t \<in> set (timeslots (st\<lparr>timeslots := timeslots st @ [new]\<rparr>))" for t
  proof (cases "t \<in> set (timeslots st)")
    case True
    then show ?thesis using consistent_inv [OF c True] by simp
  next
    case False
    then have tn: "t = new" using that by simp
    have "\<not> (\<exists>b \<in> set (bookings st). b_timeslot_id b = timeslot_id new)"
      using consistent_fk [OF c] fresh by metis
    then show ?thesis using tn free by auto
  qed
qed

lemma post_timeslots_consistent:
  "consistent st \<Longrightarrow> consistent (db_after (post_timeslots uuid req st))"
  using post_timeslots_db_after [of uuid req st] insert_slot_preserves_consistent [of st]
  by (elim disjE exE conjE) simp_all

lemma put_timeslots_db_after:
  "db_after (put_timeslots tid s e st) = st \<or>
   (\<exists>s' e'. db_after (put_timeslots tid s e st) = update_times s' e' tid st)"
  by (auto simp: put_timeslots_def Let_def split: list.splits)

lemma update_times_preserves_consistent:
  assumes c: "consistent st"
  shows "consistent (update_times s e tid st)"
proof (rule consistentI)
  let ?g = "\<lambda>t. if timeslot_id t = tid then t\<lparr>start_time := s, end_time := e\<rparr> else t"
  have bs: "bookings (update_times s e tid st) = bookings st"
    by (simp add: update_times_def)
  have ts: "timeslots (update_times s e tid st) = map ?g (timeslots st)"
    by (simp add: update_times_def)
  have tids: "map timeslot_id (timeslots (update_times s e tid st)) = map timeslot_id (timeslots st)"
    unfolding ts by (simp add: comp_def if_distrib cong: if_cong)
  show "distinct (map booking_id (bookings (update_times s e tid st)))"
    using consistent_pk [OF c] unfolding bs .
  show "b_timeslot_id b \<in> set (map timeslot_id (timeslots (update_times s e tid st)))"
    if "b \<in> set (bookings (update_times s e tid st))" for b
    using consistent_fk [OF c, of b] that unfolding bs tids .
  show "booking_status b = ''active'' \<or> booking_status b = ''canceled''"
    if "b \<in> set (bookings (update_times s e tid st))" for b
    using consistent_status [OF c, of b] that unfolding bs .
  show "booking_id b = booking_id b'"
    if "b \<in> set (bookings (update_times s e tid st))"
      "b' \<in> set (bookings (update_times s e tid st))"
      "b_timeslot_id b = b_timeslot_id b'" "booking_status b = ''active''"
      "booking_status b' = ''active''" for b b'
    using consistent_one [OF c, of b b'] that unfolding bs by simp
  show "is_booked t \<longleftrightarrow>
          (\<exists>b \<in> set (bookings (update_times s e tid st)).
             b_timeslot_id b = timeslot_id t \<and> booking_status b = ''active'')"
    if "t \<in> set (timeslots (update_times s e tid st))" for t
  proof -
    from that obtain u where u: "u \<in> set (timeslots st)" and t: "t = ?g u"
      unfolding ts by auto
    have "is_booked t = is_booked u" "timeslot_id t = timeslot_id u"
      using t by simp_all
    then show ?thesis using consistent_inv [OF c u] unfolding bs by simp
  qed
qed

lemma put_timeslots_consistent:
  "consistent st \<Longrightarrow> consistent (db_after (put_timeslots tid s e st))"
  using put_timeslots_db_after [of tid s e st] update_times_preserves_consistent [of st]
  by (elim disjE exE) simp_all

lemma delete_timeslots_db_after:
  "db_after (delete_timeslots tid st) = st \<or>
   (\<not> (tid \<in> set (map timeslot_id (timeslots st)) \<and> tid \<in> set (map b_timeslot_id (bookings st))) \<and>
    db_after (delete_timeslots tid st) =
      st\<lparr>timeslots := filter (\<lambda>t. timeslot_id t \<noteq> tid) (timeslots st)\<rparr>)"
  by (auto simp: delete_timeslots_def delete_timeslot_def split: option.splits if_splits)

lemma delete_preserves_consistent:
  assumes c: "consistent st"
    and unref: "\<not> (tid \<in> set (map timeslot_id (timeslots st)) \<and>
                   tid \<in> set (map b_timeslot_id (bookings st)))"
  shows "consistent (st\<lparr>timeslots := filter (\<lambda>t. timeslot_id t \<noteq> tid) (timeslots st)\<rparr>)"
    (is "consistent ?st'")
proof (rule consistentI)
  have bs: "bookings ?st' = bookings st" by simp
  show "distinct (map booking_id (bookings ?st'))"
    using consistent_pk [OF c] by simp
  show "b_timeslot_id b \<in> set (map timeslot_id (timeslots ?st'))"
    if "b \<in> set (bookings ?st')" for b
  proof -
    have b: "b \<in> set (bookings st)" using that by simp
    have "b_timeslot_id b \<in> set (map timeslot_id (timeslots st))"
      using consistent_fk [OF c b] .
    moreover have "b_timeslot_id b \<noteq> tid"
      using unref b calculation by auto
    ultimately show ?thesis by auto
  qed
  show "booking_status b = ''active'' \<or> booking_status b = ''canceled''"
    if "b \<in> set (bookings ?st')" for b
    using consistent_status [OF c, of b] that by simp
  show "booking_id b = booking_id b'"
    if "b \<in> set (bookings ?st')" "b' \<in> set (bookings ?st')"
      "b_timeslot_id b = b_timeslot_id b'" "booking_status b = ''active''"
      "booking_status b' = ''active''" for b b'
    using consistent_one [OF c, of b b'] that by simp
  show "is_booked t \<longleftrightarrow>
          (\<exists>b \<in> set (bookings ?st').
             b_timeslot_id b = timeslot_id t \<and> booking_status b = ''active'')"
    if "t \<in> set (timeslots ?st')" for t
  proof -
    have "t \<in> set (timeslots st)" using that by simp
    then show ?thesis using consistent_inv [OF c] by simp
  qed
qed

lemma delete_timeslots_consistent:
  "consistent st \<Longrightarrow> consistent (db_after (delete_timeslots tid st))"
  using delete_timeslots_db_after [of tid st] delete_preserves_consistent [of st tid]
  by (elim disjE conjE) simp_all

lemma step_consistent: "consistent st \<Longrightarrow> consistent (step st r)"
  by (cases r)
    (simp_all add: post_bookings_consistent put_cancel_consistent post_timeslots_consistent
       put_timeslots_consistent delete_timeslots_consistent)

lemma run_consistent: "consistent st \<Longrightarrow> consistent (run st rs)"
  unfolding run_def by (induction rs arbitrary: st) (simp_all add: step_consistent)

text \<open>
  C1. From a database that satisfies the constraints of db.sql and the invariant (as the
  seeded database does), every state reached by committed requests has a slot flagged
  booked exactly when an active booking references it, and every further operation
  (booking, cancellation, slot creation, edit or deletion) leads to such a state again.
\<close>

theorem booked_flag_invariant:
  "consistent st0 \<Longrightarrow>
     booked_iff_active (run st0 rs) \<and> booked_iff_active (step (run st0 rs) r)"
proof -
  assume "consistent st0"
  then have c: "consistent (run st0 rs)" by (rule run_consistent)
  then have "consistent (step (run st0 rs) r)" by (rule step_consistent)
  then show ?thesis using c by (simp add: consistent_def)
qed

theorem booked_flag_invariant_witness:
  "consistent seed_db \<and>
   booked_iff_active
     (run seed_db
        [CreateBooking ''u1'' ''2023-10-14T08:00:00.000Z''
           \<lparr>req_timeslot_id = Some ''ts2'', req_full_name = Some ''Jane Doe'',
            req_email = Some ''jane@x.com'', req_phone = None, req_appointment_notes = None\<rparr>,
         CancelBooking ''booking1'']) \<and>
   booked_iff_active
     (step
        (run seed_db
           [CreateBooking ''u1'' ''2023-10-14T08:00:00.000Z''
              \<lparr>req_timeslot_id = Some ''ts2'', req_full_name = Some ''Jane Doe'',
               req_email = Some ''jane@x.com'', req_phone = None, req_appointment_notes = None\<rparr>,
            CancelBooking ''booking1''])
        (DeleteSlot ''ts4'')) \<and>
   map is_booked
     (timeslots
        (run seed_db
           [CreateBooking ''u1'' ''2023-10-14T08:00:00.000Z''
              \<lparr>req_timeslot_id = Some ''ts2'', req_full_name = Some ''Jane Doe'',
               req_email = Some ''jane@x.com'', req_phone = None, req_appointment_notes = None\<rparr>,
            CancelBooking ''booking1''])) =
     [False, True, True, False, False, False, False]"
proof -
  let ?rs = "[CreateBooking ''u1'' ''2023-10-14T08:00:00.000Z''
           \<lparr>req_timeslot_id = Some ''ts2'', req_full_name = Some ''Jane Doe'',
            req_email = Some ''jane@x.com'', req_phone = None, req_appointment_notes = None\<rparr>,
         CancelBooking ''booking1'']"
  note c = seed_db_consistent
  have v: "map is_booked (timeslots (run seed_db ?rs)) =
             [False, True, True, False, False, False, False]"
    by code_simp
  show ?thesis
    using booked_flag_invariant [OF c, of ?rs "DeleteSlot ''ts4''"] c v by simp
qed

section \<open>Deleting a timeslot\<close>

lemma delete_with_active_booking:
  assumes "\<not> has_nul tid" "b \<in> set (bookings st)" "b_timeslot_id b = tid"
    "booking_status b = ''active''"
  shows "delete_timeslots tid st =
           \<lparr>db_after = st, trace = [],
            reply = Failure 400 ''Cannot delete timeslot with active booking''\<rparr>"
proof -
  have "filter (\<lambda>b. b_timeslot_id b = tid \<and> booking_status b = ''active'') (bookings st) \<noteq> []"
    using assms(2-4) by (auto simp: filter_empty_conv)
  then show ?thesis
    using assms(1) by (simp add: delete_timeslots_def)
qed

lemma delete_referenced_slot:
  assumes "tid \<in> set (map timeslot_id (timeslots st))" "tid \<in> set (map b_timeslot_id (bookings st))"
  shows "db_after (delete_timeslots tid st) = st \<and>
         (reply (delete_timeslots tid st) =
            Failure 400 ''Cannot delete timeslot with active booking'' \<or>
          reply (delete_timeslots tid st) = Failure 500 ''Internal server error'')"
  using assms by (simp add: delete_timeslots_def delete_timeslot_def)

lemma delete_after_cancel:
  assumes nn: "\<not> has_nul bid"
    and sel: "select_booking st bid = b # rest" and live: "booking_status b = ''active''"
    and slot: "b_timeslot_id b \<in> set (map timeslot_id (timeslots st))"
    and one: "\<forall>x \<in> set (bookings st). b_timeslot_id x = b_timeslot_id b \<and>
                booking_status x = ''active'' \<longrightarrow> booking_id x = bid"
  shows "delete_timeslots (b_timeslot_id b) (db_after (put_cancel bid st)) =
           \<lparr>db_after = db_after (put_cancel bid st), trace = [],
            reply = Failure 500 ''Internal server error''\<rparr>"
proof -
  let ?st' = "db_after (put_cancel bid st)"
  let ?tid = "b_timeslot_id b"
  have n: "booking_status b \<noteq> ''canceled''" using live by simp
  have st': "?st' = update_is_booked False ?tid (update_booking_status ''canceled'' bid st)"
    using put_cancel_commit [OF nn sel n] by simp
  have bs: "bookings ?st' =
              map (\<lambda>x. if booking_id x = bid then x\<lparr>booking_status := ''canceled''\<rparr> else x)
                (bookings st)"
    unfolding st' by (simp add: update_is_booked_def update_booking_status_def)
  have ids: "map timeslot_id (timeslots ?st') = map timeslot_id (timeslots st)"
    unfolding st' by (simp add: update_is_booked_ids update_booking_status_def)
  have refs: "map b_timeslot_id (bookings ?st') = map b_timeslot_id (bookings st)"
    unfolding bs by (simp add: comp_def if_distrib cong: if_cong)
  have "filter (\<lambda>x. b_timeslot_id x = ?tid \<and> booking_status x = ''active'') (bookings ?st') = []"
    unfolding bs using one by (auto simp: filter_empty_conv)
  moreover have "?tid \<in> set (map b_timeslot_id (bookings ?st'))"
    unfolding refs using select_booking_Cons [OF sel] by auto
  moreover have "?tid \<in> set (map timeslot_id (timeslots ?st'))"
    unfolding ids using slot .
  ultimately show ?thesis
    by (simp add: delete_timeslots_def delete_timeslot_def)
qed

text \<open>
  C5 on the seeded database. Deleting \<^verbatim>\<open>ts1\<close> while \<^verbatim>\<open>booking1\<close> is active is refused
  with ``Cannot delete timeslot with active booking'' and the slot stays. After
  \<^verbatim>\<open>booking1\<close> has been canceled, the handler's check passes, the \<^verbatim>\<open>DELETE\<close> violates
  \<^verbatim>\<open>fk_timeslot\<close> (the canceled booking still references the slot), and the handler answers
  500 ``Internal server error'': the slot is still there.
\<close>

theorem delete_after_cancel_seed:
  "delete_timeslots ''ts1'' seed_db =
     \<lparr>db_after = seed_db, trace = [],
      reply = Failure 400 ''Cannot delete timeslot with active booking''\<rparr> \<and>
   reply (put_cancel ''booking1'' seed_db) =
     Ok ''Booking canceled and timeslot updated successfully'' \<and>
   delete_timeslots ''ts1'' (db_after (put_cancel ''booking1'' seed_db)) =
     \<lparr>db_after = db_after (put_cancel ''booking1'' seed_db), trace = [],
      reply = Failure 500 ''Internal server error''\<rparr> \<and>
   ''ts1'' \<in> set (map timeslot_id (timeslots (db_after (put_cancel ''booking1'' seed_db))))"
proof -
  have b1: "select_booking seed_db ''booking1'' = (bookings seed_db ! 0) # []"
    and act: "booking_status (bookings seed_db ! 0) = ''active''"
    and ref: "b_timeslot_id (bookings seed_db ! 0) = ''ts1''"
    and mem: "bookings seed_db ! 0 \<in> set (bookings seed_db)"
    and slot: "''ts1'' \<in> set (map timeslot_id (timeslots seed_db))"
    and one: "\<forall>x \<in> set (bookings seed_db). b_timeslot_id x = ''ts1'' \<and>
                booking_status x = ''active'' \<longrightarrow> booking_id x = ''booking1''"
    by (simp_all add: seed_db_def select_booking_def)
  have nn: "\<not> has_nul ''booking1''" and nt: "\<not> has_nul ''ts1''"
    by (simp_all add: has_nul_def)
  have n: "booking_status (bookings seed_db ! 0) \<noteq> ''canceled''" using act by simp
  have 1: "delete_timeslots ''ts1'' seed_db =
     \<lparr>db_after = seed_db, trace = [],
      reply = Failure 400 ''Cannot delete timeslot with active booking''\<rparr>"
    by (rule delete_with_active_booking [OF nt mem ref act])
  have 2: "reply (put_cancel ''booking1'' seed_db) =
     Ok ''Booking canceled and timeslot updated successfully''"
    using put_cancel_commit [OF nn b1 n] by simp
  have 3: "delete_timeslots ''ts1'' (db_after (put_cancel ''booking1'' seed_db)) =
     \<lparr>db_after = db_after (put_cancel ''booking1'' seed_db), trace = [],
      reply = Failure 500 ''Internal server error''\<rparr>"
    using delete_after_cancel [OF nn b1 act] slot one unfolding ref by simp
  have 4: "''ts1'' \<in> set (map timeslot_id (timeslots (db_after (put_cancel ''booking1'' seed_db))))"
    using put_cancel_commit [OF nn b1 n] slot
    by (simp add: update_is_booked_ids update_booking_status_def)
  show ?thesis using 1 2 3 4 by simp
qed

section \<open>Emission of the change events\<close>

lemma post_bookings_trace:
  "(trace (post_bookings uuid now req st) = [] \<or>
    trace (post_bookings uuid now req st) = [BEGIN, ROLLBACK]) \<and>
   (\<exists>c m. reply (post_bookings uuid now req st) = Failure c m) \<and>
   db_after (post_bookings uuid now req st) = st
   \<or>
   (\<exists>t v. trace (post_bookings uuid now req st) =
            [BEGIN, COMMIT, Emit (timeslot_update (t\<lparr>is_booked := True\<rparr>)),
             Emit (booking_update uuid (timeslot_id t) ''active'')] \<and>
          t \<in> set (timeslots st) \<and>
          reply (post_bookings uuid now req st) = Ok v)"
proof (cases "falsy (req_timeslot_id req) \<or> falsy (req_full_name req) \<or> falsy (req_email req)")
  case True
  then show ?thesis by (simp add: post_bookings_def)
next
  case False
  let ?tid = "or_else (req_timeslot_id req) []"
  let ?name = "or_else (req_full_name req) []"
  let ?mail = "or_else (req_email req) []"
  show ?thesis
  proof (cases "has_nul ?tid")
    case True
    then show ?thesis using False by (simp add: post_bookings_def Let_def)
  next
    case nn: False
    show ?thesis
    proof (cases "select_timeslot st ?tid")
      case Nil
      then show ?thesis using False nn by (simp add: post_bookings_def Let_def)
    next
      case (Cons t rest)
      note sel = select_timeslot_Cons [OF Cons]
      show ?thesis
      proof (cases "is_booked t")
        case True
        then show ?thesis using False nn Cons by (simp add: post_bookings_def Let_def)
      next
        case nb: False
        show ?thesis
        proof (cases "has_nul ?name \<or> has_nul ?mail \<or> opt_has_nul (or_null (req_phone req)) \<or>
                      opt_has_nul (or_null (req_appointment_notes req))")
          case True
          then show ?thesis using False nn Cons nb by (simp add: post_bookings_def Let_def)
        next
          case clean: False
          let ?b = "\<lparr>booking_id = uuid, b_timeslot_id = ?tid, full_name = ?name,
                     email = ?mail, phone = or_null (req_phone req),
                     appointment_notes = or_null (req_appointment_notes req),
                     booking_status = ''active'', created_at = now\<rparr>"
          show ?thesis
          proof (cases "insert_booking ?b (update_is_booked True ?tid st)")
            case None
            then show ?thesis
              using False nn Cons nb clean by (simp add: post_bookings_def Let_def)
          next
            case (Some st')
            have "trace (post_bookings uuid now req st) =
                [BEGIN, COMMIT, Emit (timeslot_update (t\<lparr>is_booked := True\<rparr>)),
                 Emit (booking_update uuid (timeslot_id t) ''active'')] \<and>
              t \<in> set (timeslots st) \<and>
              reply (post_bookings uuid now req st) =
                Ok (uuid, \<lparr>bd_timeslot_id = ?tid, bd_full_name = ?name,
                           bd_email = ?mail, bd_slot_date = slot_date t,
                           bd_start_time = start_time t, bd_end_time = end_time t\<rparr>)"
              using False nn Cons nb clean Some sel by (simp add: post_bookings_def Let_def)
            then show ?thesis by blast
          qed
        qed
      qed
    qed
  qed
qed

lemma put_cancel_trace:
  "trace (put_cancel bid st) = [BEGIN, ROLLBACK] \<and>
   (\<exists>c m. reply (put_cancel bid st) = Failure c m) \<and> db_after (put_cancel bid st) = st
   \<or>
   (\<exists>b v. b \<in> set (bookings st) \<and>
      trace (put_cancel bid st) =
        [BEGIN, COMMIT, Emit (booking_update bid (b_timeslot_id b) ''canceled'')] @
        (case select_timeslot (db_after (put_cancel bid st)) (b_timeslot_id b) of
           [] \<Rightarrow> []
         | row # rows \<Rightarrow> [Emit (timeslot_update row)]) \<and>
      reply (put_cancel bid st) = Ok v)"
proof (cases "has_nul bid")
  case True
  then show ?thesis by (simp add: put_cancel_refused)
next
  case nn: False
  show ?thesis
  proof (cases "select_booking st bid")
    case Nil
    then show ?thesis using nn by (simp add: put_cancel_def)
  next
    case (Cons b rest)
    note sel = select_booking_Cons [OF Cons]
    show ?thesis
    proof (cases "booking_status b = ''canceled''")
      case True
      then show ?thesis using Cons nn by (simp add: put_cancel_def)
    next
      case False
      have "b \<in> set (bookings st) \<and>
        trace (put_cancel bid st) =
          [BEGIN, COMMIT, Emit (booking_update bid (b_timeslot_id b) ''canceled'')] @
          (case select_timeslot (db_after (put_cancel bid st)) (b_timeslot_id b) of
             [] \<Rightarrow> []
           | row # rows \<Rightarrow> [Emit (timeslot_update row)]) \<and>
        reply (put_cancel bid st) = Ok ''Booking canceled and timeslot updated successfully''"
        using Cons False sel nn by (simp add: put_cancel_def Let_def)
      then show ?thesis by blast
    qed
  qed
qed

lemma put_cancel_timeslot_ids:
  "map timeslot_id (timeslots (db_after (put_cancel bid st))) = map timeslot_id (timeslots st)"
  using put_cancel_db_after [of bid st]
  by (elim disjE exE conjE) (simp_all add: comp_def if_distrib cong: if_cong)

text \<open>
  C7, as the code has it. For a booking and for a cancellation: no event is emitted
  before the \<^verbatim>\<open>COMMIT\<close>, and none at all when the transaction is rolled back or the reply
  is a failure. A committed booking emits the slot update and then the booking update; a
  committed cancellation (on a database that satisfies \<^verbatim>\<open>fk_timeslot\<close>) emits the booking
  update and then the slot update.
\<close>

theorem events_after_commit:
  "emits_after_commit (trace (post_bookings uuid now req st)) \<and>
   (ROLLBACK \<in> set (trace (post_bookings uuid now req st)) \<longrightarrow>
      emitted (trace (post_bookings uuid now req st)) = []) \<and>
   ((\<exists>c m. reply (post_bookings uuid now req st) = Failure c m) \<longrightarrow>
      emitted (trace (post_bookings uuid now req st)) = []) \<and>
   ((\<exists>v. reply (post_bookings uuid now req st) = Ok v) \<longrightarrow>
      COMMIT \<in> set (trace (post_bookings uuid now req st)) \<and>
      slot_then_booking (emitted (trace (post_bookings uuid now req st)))) \<and>
   emits_after_commit (trace (put_cancel bid st)) \<and>
   (ROLLBACK \<in> set (trace (put_cancel bid st)) \<longrightarrow> emitted (trace (put_cancel bid st)) = []) \<and>
   ((\<exists>c m. reply (put_cancel bid st) = Failure c m) \<longrightarrow>
      emitted (trace (put_cancel bid st)) = []) \<and>
   (fk_timeslot st \<and> (\<exists>v. reply (put_cancel bid st) = Ok v) \<longrightarrow>
      COMMIT \<in> set (trace (put_cancel bid st)) \<and>
      booking_then_slot (emitted (trace (put_cancel bid st))))"
proof -
  have create:
    "emits_after_commit (trace (post_bookings uuid now req st)) \<and>
     (ROLLBACK \<in> set (trace (post_bookings uuid now req st)) \<longrightarrow>
        emitted (trace (post_bookings uuid now req st)) = []) \<and>
     ((\<exists>c m. reply (post_bookings uuid now req st) = Failure c m) \<longrightarrow>
        emitted (trace (post_bookings uuid now req st)) = []) \<and>
     ((\<exists>v. reply (post_bookings uuid now req st) = Ok v) \<longrightarrow>
        COMMIT \<in> set (trace (post_bookings uuid now req st)) \<and>
        slot_then_booking (emitted (trace (post_bookings uuid now req st))))"
    using post_bookings_trace [of uuid now req st]
    by (elim disjE exE conjE) (simp_all add: emits_after_commit_def slot_then_booking_def)
  have cancel1:
    "emits_after_commit (trace (put_cancel bid st)) \<and>
     (ROLLBACK \<in> set (trace (put_cancel bid st)) \<longrightarrow> emitted (trace (put_cancel bid st)) = []) \<and>
     ((\<exists>c m. reply (put_cancel bid st) = Failure c m) \<longrightarrow>
        emitted (trace (put_cancel bid st)) = [])"
    using put_cancel_trace [of bid st]
    by (elim disjE exE conjE)
      (simp_all add: emits_after_commit_def split: list.splits)
  have cancel2: "COMMIT \<in> set (trace (put_cancel bid st)) \<and>
      booking_then_slot (emitted (trace (put_cancel bid st)))"
    if fk: "fk_timeslot st" and ok: "\<exists>v. reply (put_cancel bid st) = Ok v"
  proof -
    from put_cancel_trace [of bid st] ok obtain b where b: "b \<in> set (bookings st)"
      and tr: "trace (put_cancel bid st) =
        [BEGIN, COMMIT, Emit (booking_update bid (b_timeslot_id b) ''canceled'')] @
        (case select_timeslot (db_after (put_cancel bid st)) (b_timeslot_id b) of
           [] \<Rightarrow> []
         | row # rows \<Rightarrow> [Emit (timeslot_update row)])"
      by auto
    have "b_timeslot_id b \<in> set (map timeslot_id (timeslots (db_after (put_cancel bid st))))"
      unfolding put_cancel_timeslot_ids using fk b by (simp add: fk_timeslot_def)
    then have "select_timeslot (db_after (put_cancel bid st)) (b_timeslot_id b) \<noteq> []"
      by (simp add: select_timeslot_empty)
    then obtain row rows where
      "select_timeslot (db_after (put_cancel bid st)) (b_timeslot_id b) = row # rows"
      by (cases "select_timeslot (db_after (put_cancel bid st)) (b_timeslot_id b)") auto
    then show ?thesis
      unfolding tr by (simp add: booking_then_slot_def)
  qed
  show ?thesis using create cancel1 cancel2 by blast
qed

theorem events_after_commit_witness:
  "fk_timeslot seed_db \<and>
   reply (put_cancel ''booking1'' seed_db) =
     Ok ''Booking canceled and timeslot updated successfully'' \<and>
   booking_then_slot (emitted (trace (put_cancel ''booking1'' seed_db))) \<and>
   ROLLBACK \<in> set (trace (put_cancel ''booking3'' seed_db)) \<and>
   emitted (trace (put_cancel ''booking3'' seed_db)) = [] \<and>
   reply (post_bookings ''u1'' ''2023-10-14T08:00:00.000Z''
            \<lparr>req_timeslot_id = Some ''ts2'', req_full_name = Some ''Jane Doe'',
             req_email = Some ''jane@x.com'', req_phone = None,
             req_appointment_notes = None\<rparr> seed_db) =
     Ok (''u1'', \<lparr>bd_timeslot_id = ''ts2'', bd_full_name = ''Jane Doe'',
                  bd_email = ''jane@x.com'', bd_slot_date = ''2023-10-15'',
                  bd_start_time = ''09:30'', bd_end_time = ''10:00''\<rparr>) \<and>
   slot_then_booking
     (emitted (trace (post_bookings ''u1'' ''2023-10-14T08:00:00.000Z''
            \<lparr>req_timeslot_id = Some ''ts2'', req_full_name = Some ''Jane Doe'',
             req_email = Some ''jane@x.com'', req_phone = None,
             req_appointment_notes = None\<rparr> seed_db)))"
proof -
  let ?req = "\<lparr>req_timeslot_id = Some ''ts2'', req_full_name = Some ''Jane Doe'',
             req_email = Some ''jane@x.com'', req_phone = None,
             req_appointment_notes = None\<rparr>"
  let ?now = "''2023-10-14T08:00:00.000Z''"
  have fk: "fk_timeslot seed_db"
    by (simp add: fk_timeslot_def seed_db_def)
  have ok1: "reply (put_cancel ''booking1'' seed_db) =
     Ok ''Booking canceled and timeslot updated successfully''"
    by code_simp
  have rb: "ROLLBACK \<in> set (trace (put_cancel ''booking3'' seed_db))"
    by code_simp
  have ok2: "reply (post_bookings ''u1'' ?now ?req seed_db) =
     Ok (''u1'', \<lparr>bd_timeslot_id = ''ts2'', bd_full_name = ''Jane Doe'',
                  bd_email = ''jane@x.com'', bd_slot_date = ''2023-10-15'',
                  bd_start_time = ''09:30'', bd_end_time = ''10:00''\<rparr>)"
    by code_simp
  note a = events_after_commit [of "''u1''" ?now ?req seed_db "''booking1''"]
  note b = events_after_commit [of "''u1''" ?now ?req seed_db "''booking3''"]
  have 1: "booking_then_slot (emitted (trace (put_cancel ''booking1'' seed_db)))"
    using a fk ok1 by blast
  have 2: "emitted (trace (put_cancel ''booking3'' seed_db)) = []"
    using b rb by blast
  have 3: "slot_then_booking (emitted (trace (post_bookings ''u1'' ?now ?req seed_db)))"
    using a ok2 by blast
  show ?thesis using fk ok1 rb ok2 1 2 3 by simp
qed

text \<open>
  The order the claim asks of every transaction fails for a cancellation: canceling
  \<^verbatim>\<open>booking1\<close> of the seeded database commits and emits the booking update first.
\<close>

theorem cancel_event_order_counterexample:
  "reply (put_cancel ''booking1'' seed_db) =
     Ok ''Booking canceled and timeslot updated successfully'' \<and>
   trace (put_cancel ''booking1'' seed_db) =
     [BEGIN, COMMIT, Emit (booking_update ''booking1'' ''ts1'' ''canceled''),
      Emit (timeslot_update
              \<lparr>timeslot_id = ''ts1'', slot_date = ''2023-10-15'', start_time = ''09:00'',
               end_time = ''09:30'', is_booked = False\<rparr>)] \<and>
   \<not> slot_then_booking (emitted (trace (put_cancel ''booking1'' seed_db)))"
  by code_simp

section \<open>Editing and creating a timeslot\<close>

lemma put_timeslots_refused_id:
  assumes "\<not> (falsy s_in \<and> falsy e_in)" "has_nul tid"
  shows "put_timeslots tid s_in e_in st =
           \<lparr>db_after = st, trace = [], reply = Failure 500 ''Internal server error''\<rparr>"
  using assms
  by (cases "falsy s_in"; cases "falsy e_in") (simp_all add: put_timeslots_def)

lemma put_timeslots_refused_times:
  assumes "\<not> (falsy s_in \<and> falsy e_in)" "\<not> has_nul tid" "select_timeslot st tid = cur # rest"
    "opt_has_nul s_in \<or> opt_has_nul e_in"
  shows "put_timeslots tid s_in e_in st =
           \<lparr>db_after = st, trace = [], reply = Failure 500 ''Internal server error''\<rparr>"
  using assms
  by (cases "falsy s_in"; cases "falsy e_in") (auto simp: put_timeslots_def Let_def)

lemma put_timeslots_unfold:
  assumes "\<not> (falsy s_in \<and> falsy e_in)" "\<not> has_nul tid" "select_timeslot st tid = cur # rest"
    "\<not> opt_has_nul s_in" "\<not> opt_has_nul e_in"
  shows "put_timeslots tid s_in e_in st =
     (if length (overlapQuery_edit st (slot_date cur) tid (or_else s_in (start_time cur))
                   (or_else e_in (end_time cur))) > 0 then
        \<lparr>db_after = st, trace = [], reply = Failure 400 ''Overlapping timeslot exists''\<rparr>
      else
        \<lparr>db_after = update_times (or_else s_in (start_time cur)) (or_else e_in (end_time cur)) tid st,
         trace = [Emit (timeslot_update
                         \<lparr>timeslot_id = tid, slot_date = slot_date cur,
                          start_time = or_else s_in (start_time cur),
                          end_time = or_else e_in (end_time cur),
                          is_booked = is_booked cur\<rparr>)],
         reply = Ok ''Timeslot updated successfully''\<rparr>)"
  using assms
  by (cases "falsy s_in"; cases "falsy e_in") (simp_all add: put_timeslots_def Let_def)

text \<open>
  C8. With at least one of the two times supplied. A NUL byte in the id makes the lookup
  raise, and for a slot that is found a NUL byte in a time of the request makes the
  overlap query raise: the reply is 500 and nothing changes. Without such a byte: an
  unknown id is answered ``Timeslot not found'' (NotFound). Otherwise a time that is not
  supplied keeps the time of the current row, the edit is refused with ``Overlapping
  timeslot exists'' (Conflict) exactly when some slot of the same date with another id,
  booked or not, overlaps the new interval, leaving the tables as they were, and in the
  other case the new times are written to the slot.
\<close>

theorem edit_slot_outcomes:
  assumes "\<not> (falsy s_in \<and> falsy e_in)"
  shows
    "(has_nul tid \<longrightarrow>
        put_timeslots tid s_in e_in st =
          \<lparr>db_after = st, trace = [], reply = Failure 500 ''Internal server error''\<rparr>) \<and>
     (\<not> has_nul tid \<and> tid \<notin> set (map timeslot_id (timeslots st)) \<longrightarrow>
        put_timeslots tid s_in e_in st =
          \<lparr>db_after = st, trace = [], reply = Failure 400 ''Timeslot not found''\<rparr> \<and>
        error_kind (reply (put_timeslots tid s_in e_in st)) = Some NotFound) \<and>
     (\<forall>cur rest. \<not> has_nul tid \<and> select_timeslot st tid = cur # rest \<longrightarrow>
        (falsy s_in \<longrightarrow> or_else s_in (start_time cur) = start_time cur) \<and>
        (falsy e_in \<longrightarrow> or_else e_in (end_time cur) = end_time cur) \<and>
        (\<forall>v. s_in = Some v \<and> v \<noteq> [] \<longrightarrow> or_else s_in (start_time cur) = v) \<and>
        (\<forall>v. e_in = Some v \<and> v \<noteq> [] \<longrightarrow> or_else e_in (end_time cur) = v) \<and>
        (opt_has_nul s_in \<or> opt_has_nul e_in \<longrightarrow>
           put_timeslots tid s_in e_in st =
             \<lparr>db_after = st, trace = [], reply = Failure 500 ''Internal server error''\<rparr>) \<and>
        (\<not> opt_has_nul s_in \<and> \<not> opt_has_nul e_in \<longrightarrow>
           (reply (put_timeslots tid s_in e_in st) = Failure 400 ''Overlapping timeslot exists'' \<longleftrightarrow>
              (\<exists>t \<in> set (timeslots st).
                 slot_date t = slot_date cur \<and> timeslot_id t \<noteq> tid \<and>
                 or_else s_in (start_time cur) < end_time t \<and>
                 start_time t < or_else e_in (end_time cur))) \<and>
           (reply (put_timeslots tid s_in e_in st) = Failure 400 ''Overlapping timeslot exists'' \<longrightarrow>
              db_after (put_timeslots tid s_in e_in st) = st \<and>
              error_kind (reply (put_timeslots tid s_in e_in st)) = Some Conflict) \<and>
           (reply (put_timeslots tid s_in e_in st) \<noteq> Failure 400 ''Overlapping timeslot exists'' \<longrightarrow>
              reply (put_timeslots tid s_in e_in st) = Ok ''Timeslot updated successfully'' \<and>
              timeslots (db_after (put_timeslots tid s_in e_in st)) =
                map (\<lambda>t. if timeslot_id t = tid
                          then t\<lparr>start_time := or_else s_in (start_time cur),
                                 end_time := or_else e_in (end_time cur)\<rparr>
                          else t) (timeslots st) \<and>
              bookings (db_after (put_timeslots tid s_in e_in st)) = bookings st)))"
proof -
  have refused: "has_nul tid \<longrightarrow>
        put_timeslots tid s_in e_in st =
          \<lparr>db_after = st, trace = [], reply = Failure 500 ''Internal server error''\<rparr>"
    using put_timeslots_refused_id [OF assms] by blast
  have unknown: "put_timeslots tid s_in e_in st =
          \<lparr>db_after = st, trace = [], reply = Failure 400 ''Timeslot not found''\<rparr> \<and>
        error_kind (reply (put_timeslots tid s_in e_in st)) = Some NotFound"
    if a: "\<not> has_nul tid \<and> tid \<notin> set (map timeslot_id (timeslots st))"
  proof -
    from a have e: "select_timeslot st tid = []" and nn: "\<not> has_nul tid"
      by (simp_all add: select_timeslot_empty)
    have "put_timeslots tid s_in e_in st =
          \<lparr>db_after = st, trace = [], reply = Failure 400 ''Timeslot not found''\<rparr>"
      using assms e nn
      by (cases "falsy s_in"; cases "falsy e_in") (simp_all add: put_timeslots_def)
    then show ?thesis
      by (simp add: error_kind_def kind_of_message_def)
  qed
  have keep: "(falsy s_in \<longrightarrow> or_else s_in (start_time cur) = start_time cur) \<and>
        (falsy e_in \<longrightarrow> or_else e_in (end_time cur) = end_time cur) \<and>
        (\<forall>v. s_in = Some v \<and> v \<noteq> [] \<longrightarrow> or_else s_in (start_time cur) = v) \<and>
        (\<forall>v. e_in = Some v \<and> v \<noteq> [] \<longrightarrow> or_else e_in (end_time cur) = v)"
    for cur :: timeslot
    by (auto simp: falsy_def or_else_def split: option.splits)
  have times: "opt_has_nul s_in \<or> opt_has_nul e_in \<longrightarrow>
           put_timeslots tid s_in e_in st =
             \<lparr>db_after = st, trace = [], reply = Failure 500 ''Internal server error''\<rparr>"
    if "\<not> has_nul tid" "select_timeslot st tid = cur # rest" for cur rest
    using put_timeslots_refused_times [OF assms that] by blast
  have edit:
    "(reply (put_timeslots tid s_in e_in st) = Failure 400 ''Overlapping timeslot exists'' \<longleftrightarrow>
              (\<exists>t \<in> set (timeslots st).
                 slot_date t = slot_date cur \<and> timeslot_id t \<noteq> tid \<and>
                 or_else s_in (start_time cur) < end_time t \<and>
                 start_time t < or_else e_in (end_time cur))) \<and>
           (reply (put_timeslots tid s_in e_in st) = Failure 400 ''Overlapping timeslot exists'' \<longrightarrow>
              db_after (put_timeslots tid s_in e_in st) = st \<and>
              error_kind (reply (put_timeslots tid s_in e_in st)) = Some Conflict) \<and>
           (reply (put_timeslots tid s_in e_in st) \<noteq> Failure 400 ''Overlapping timeslot exists'' \<longrightarrow>
              reply (put_timeslots tid s_in e_in st) = Ok ''Timeslot updated successfully'' \<and>
              timeslots (db_after (put_timeslots tid s_in e_in st)) =
                map (\<lambda>t. if timeslot_id t = tid
                          then t\<lparr>start_time := or_else s_in (start_time cur),
                                 end_time := or_else e_in (end_time cur)\<rparr>
                          else t) (timeslots st) \<and>
              bookings (db_after (put_timeslots tid s_in e_in st)) = bookings st)"
    if nn: "\<not> has_nul tid" and sel: "select_timeslot st tid = cur # rest"
      and cs: "\<not> opt_has_nul s_in" and ce: "\<not> opt_has_nul e_in" for cur rest
  proof (intro conjI impI)
    note unf = put_timeslots_unfold [OF assms nn sel cs ce]
    show "reply (put_timeslots tid s_in e_in st) = Failure 400 ''Overlapping timeslot exists'' \<longleftrightarrow>
           (\<exists>t \<in> set (timeslots st).
              slot_date t = slot_date cur \<and> timeslot_id t \<noteq> tid \<and>
              or_else s_in (start_time cur) < end_time t \<and>
              start_time t < or_else e_in (end_time cur))"
      unfolding unf overlapQuery_edit_nonempty [symmetric] by simp
    {
      assume r: "reply (put_timeslots tid s_in e_in st) = Failure 400 ''Overlapping timeslot exists''"
      show "db_after (put_timeslots tid s_in e_in st) = st"
        using r unfolding unf by (simp split: if_splits)
      show "error_kind (reply (put_timeslots tid s_in e_in st)) = Some Conflict"
        unfolding r by (simp add: error_kind_def kind_of_message_def)
    }
    {
      assume r: "reply (put_timeslots tid s_in e_in st) \<noteq> Failure 400 ''Overlapping timeslot exists''"
      then have eq: "put_timeslots tid s_in e_in st =
          \<lparr>db_after = update_times (or_else s_in (start_time cur)) (or_else e_in (end_time cur)) tid st,
           trace = [Emit (timeslot_update
                           \<lparr>timeslot_id = tid, slot_date = slot_date cur,
                            start_time = or_else s_in (start_time cur),
                            end_time = or_else e_in (end_time cur),
                            is_booked = is_booked cur\<rparr>)],
           reply = Ok ''Timeslot updated successfully''\<rparr>"
        unfolding unf by (simp split: if_splits)
      show "reply (put_timeslots tid s_in e_in st) = Ok ''Timeslot updated successfully''"
        unfolding eq by simp
      show "timeslots (db_after (put_timeslots tid s_in e_in st)) =
               map (\<lambda>t. if timeslot_id t = tid
                         then t\<lparr>start_time := or_else s_in (start_time cur),
                                end_time := or_else e_in (end_time cur)\<rparr>
                         else t) (timeslots st)"
        unfolding eq by (simp add: update_times_def)
      show "bookings (db_after (put_timeslots tid s_in e_in st)) = bookings st"
        unfolding eq by (simp add: update_times_def)
    }
  qed
  show ?thesis
  proof (intro conjI allI)
    show "has_nul tid \<longrightarrow>
        put_timeslots tid s_in e_in st =
          \<lparr>db_after = st, trace = [], reply = Failure 500 ''Internal server error''\<rparr>"
      by (rule refused)
    show "\<not> has_nul tid \<and> tid \<notin> set (map timeslot_id (timeslots st)) \<longrightarrow>
        put_timeslots tid s_in e_in st =
          \<lparr>db_after = st, trace = [], reply = Failure 400 ''Timeslot not found''\<rparr> \<and>
        error_kind (reply (put_timeslots tid s_in e_in st)) = Some NotFound"
      using unknown by blast
  next
    fix cur rest
    show "\<not> has_nul tid \<and> select_timeslot st tid = cur # rest \<longrightarrow>
        (falsy s_in \<longrightarrow> or_else s_in (start_time cur) = start_time cur) \<and>
        (falsy e_in \<longrightarrow> or_else e_in (end_time cur) = end_time cur) \<and>
        (\<forall>v. s_in = Some v \<and> v \<noteq> [] \<longrightarrow> or_else s_in (start_time cur) = v) \<and>
        (\<forall>v. e_in = Some v \<and> v \<noteq> [] \<longrightarrow> or_else e_in (end_time cur) = v) \<and>
        (opt_has_nul s_in \<or> opt_has_nul e_in \<longrightarrow>
           put_timeslots tid s_in e_in st =
             \<lparr>db_after = st, trace = [], reply = Failure 500 ''Internal server error''\<rparr>) \<and>
        (\<not> opt_has_nul s_in \<and> \<not> opt_has_nul e_in \<longrightarrow>
           (reply (put_timeslots tid s_in e_in st) = Failure 400 ''Overlapping timeslot exists'' \<longleftrightarrow>
              (\<exists>t \<in> set (timeslots st).
                 slot_date t = slot_date cur \<and> timeslot_id t \<noteq> tid \<and>
                 or_else s_in (start_time cur) < end_time t \<and>
                 start_time t < or_else e_in (end_time cur))) \<and>
           (reply (put_timeslots tid s_in e_in st) = Failure 400 ''Overlapping timeslot exists'' \<longrightarrow>
              db_after (put_timeslots tid s_in e_in st) = st \<and>
              error_kind (reply (put_timeslots tid s_in e_in st)) = Some Conflict) \<and>
           (reply (put_timeslots tid s_in e_in st) \<noteq> Failure 400 ''Overlapping timeslot exists'' \<longrightarrow>
              reply (put_timeslots tid s_in e_in st) = Ok ''Timeslot updated successfully'' \<and>
              timeslots (db_after (put_timeslots tid s_in e_in st)) =
                map (\<lambda>t. if timeslot_id t = tid
                          then t\<lparr>start_time := or_else s_in (start_time cur),
                                 end_time := or_else e_in (end_time cur)\<rparr>
                          else t) (timeslots st) \<and>
              bookings (db_after (put_timeslots tid s_in e_in st)) = bookings st))"
    proof (intro impI)
      assume a: "\<not> has_nul tid \<and> select_timeslot st tid = cur # rest"
      then have nn: "\<not> has_nul tid" and sel: "select_timeslot st tid = cur # rest"
        by simp_all
      show "(falsy s_in \<longrightarrow> or_else s_in (start_time cur) = start_time cur) \<and>
        (falsy e_in \<longrightarrow> or_else e_in (end_time cur) = end_time cur) \<and>
        (\<forall>v. s_in = Some v \<and> v \<noteq> [] \<longrightarrow> or_else s_in (start_time cur) = v) \<and>
        (\<forall>v. e_in = Some v \<and> v \<noteq> [] \<longrightarrow> or_else e_in (end_time cur) = v) \<and>
        (opt_has_nul s_in \<or> opt_has_nul e_in \<longrightarrow>
           put_timeslots tid s_in e_in st =
             \<lparr>db_after = st, trace = [], reply = Failure 500 ''Internal server error''\<rparr>) \<and>
        (\<not> opt_has_nul s_in \<and> \<not> opt_has_nul e_in \<longrightarrow>
           (reply (put_timeslots tid s_in e_in st) = Failure 400 ''Overlapping timeslot exists'' \<longleftrightarrow>
              (\<exists>t \<in> set (timeslots st).
                 slot_date t = slot_date cur \<and> timeslot_id t \<noteq> tid \<and>
                 or_else s_in (start_time cur) < end_time t \<and>
                 start_time t < or_else e_in (end_time cur))) \<and>
           (reply (put_timeslots tid s_in e_in st) = Failure 400 ''Overlapping timeslot exists'' \<longrightarrow>
              db_after (put_timeslots tid s_in e_in st) = st \<and>
              error_kind (reply (put_timeslots tid s_in e_in st)) = Some Conflict) \<and>
           (reply (put_timeslots tid s_in e_in st) \<noteq> Failure 400 ''Overlapping timeslot exists'' \<longrightarrow>
              reply (put_timeslots tid s_in e_in st) = Ok ''Timeslot updated successfully'' \<and>
              timeslots (db_after (put_timeslots tid s_in e_in st)) =
                map (\<lambda>t. if timeslot_id t = tid
                          then t\<lparr>start_time := or_else s_in (start_time cur),
                                 end_time := or_else e_in (end_time cur)\<rparr>
                          else t) (timeslots st) \<and>
              bookings (db_after (put_timeslots tid s_in e_in st)) = bookings st))"
        using keep [of cur] times [OF nn sel] edit [OF nn sel] by blast
    qed
  qed
qed

theorem edit_slot_outcomes_witness:
  "reply (put_timeslots ''ts9'' (Some ''08:00'') None seed_db) =
     Failure 400 ''Timeslot not found'' \<and>
   reply (put_timeslots ''ts2'' None (Some ''10:15'') seed_db) =
     Failure 400 ''Overlapping timeslot exists'' \<and>
   reply (put_timeslots ''ts2'' (Some ''09:40'') None seed_db) =
     Ok ''Timeslot updated successfully'' \<and>
   map start_time (timeslots (db_after (put_timeslots ''ts2'' (Some ''09:40'') None seed_db))) =
     [''09:00'', ''09:40'', ''10:00'', ''10:30'', ''11:00'', ''11:30'', ''12:00''] \<and>
   map end_time (timeslots (db_after (put_timeslots ''ts2'' (Some ''09:40'') None seed_db))) =
     [''09:30'', ''10:00'', ''10:30'', ''11:00'', ''11:30'', ''12:00'', ''12:30''] \<and>
   put_timeslots ''ts2'' (Some (''09:40'' @ [CHR 0x00])) None seed_db =
     \<lparr>db_after = seed_db, trace = [], reply = Failure 500 ''Internal server error''\<rparr> \<and>
   put_timeslots [CHR ''t'', CHR 0x00] (Some ''09:40'') None seed_db =
     \<lparr>db_after = seed_db, trace = [], reply = Failure 500 ''Internal server error''\<rparr>"
proof -
  let ?ts2 = "\<lparr>timeslot_id = ''ts2'', slot_date = ''2023-10-15'', start_time = ''09:30'',
              end_time = ''10:00'', is_booked = False\<rparr>"
  have v1: "\<not> (falsy (Some ''08:00'') \<and> falsy None)"
    and v2: "\<not> (falsy None \<and> falsy (Some ''10:15''))"
    and v3: "\<not> (falsy (Some ''09:40'') \<and> falsy None)"
    and v4: "\<not> (falsy (Some (''09:40'' @ [CHR 0x00])) \<and> falsy None)"
    by (simp_all add: falsy_def)
  have unknown: "\<not> has_nul ''ts9'' \<and> ''ts9'' \<notin> set (map timeslot_id (timeslots seed_db))"
    by (simp add: seed_db_def has_nul_def)
  have sel: "\<not> has_nul ''ts2'' \<and> select_timeslot seed_db ''ts2'' = ?ts2 # []"
    by (simp add: seed_db_def select_timeslot_def has_nul_def)
  have clean2: "\<not> opt_has_nul None \<and> \<not> opt_has_nul (Some ''10:15'')"
    and clean3: "\<not> opt_has_nul (Some ''09:40'') \<and> \<not> opt_has_nul None"
    by (simp_all add: opt_has_nul_def has_nul_def)
  have dirty: "opt_has_nul (Some (''09:40'' @ [CHR 0x00])) \<or> opt_has_nul None"
    by (simp add: opt_has_nul_def has_nul_def)
  have dirty_id: "has_nul [CHR ''t'', CHR 0x00]"
    by (simp add: has_nul_def)
  have 1: "reply (put_timeslots ''ts9'' (Some ''08:00'') None seed_db) =
             Failure 400 ''Timeslot not found''"
    using edit_slot_outcomes [OF v1, of "''ts9''" seed_db, THEN conjunct2, THEN conjunct1]
      unknown
    by simp
  note e2 = edit_slot_outcomes
    [OF v2, of "''ts2''" seed_db, THEN conjunct2, THEN conjunct2, rule_format, OF sel]
  have ex: "\<exists>t \<in> set (timeslots seed_db).
              slot_date t = slot_date ?ts2 \<and> timeslot_id t \<noteq> ''ts2'' \<and>
              or_else None (start_time ?ts2) < end_time t \<and>
              start_time t < or_else (Some ''10:15'') (end_time ?ts2)"
    by (simp add: seed_db_def or_else_def)
  have 2: "reply (put_timeslots ''ts2'' None (Some ''10:15'') seed_db) =
             Failure 400 ''Overlapping timeslot exists''"
    using e2 ex clean2 by blast
  note e3 = edit_slot_outcomes
    [OF v3, of "''ts2''" seed_db, THEN conjunct2, THEN conjunct2, rule_format, OF sel]
  have nex: "\<not> (\<exists>t \<in> set (timeslots seed_db).
              slot_date t = slot_date ?ts2 \<and> timeslot_id t \<noteq> ''ts2'' \<and>
              or_else (Some ''09:40'') (start_time ?ts2) < end_time t \<and>
              start_time t < or_else None (end_time ?ts2))"
    by (simp add: seed_db_def or_else_def)
  have n3: "reply (put_timeslots ''ts2'' (Some ''09:40'') None seed_db) \<noteq>
             Failure 400 ''Overlapping timeslot exists''"
    using e3 nex clean3 by blast
  have 3: "reply (put_timeslots ''ts2'' (Some ''09:40'') None seed_db) =
             Ok ''Timeslot updated successfully''"
    and ts: "timeslots (db_after (put_timeslots ''ts2'' (Some ''09:40'') None seed_db)) =
             map (\<lambda>t. if timeslot_id t = ''ts2''
                       then t\<lparr>start_time := or_else (Some ''09:40'') (start_time ?ts2),
                              end_time := or_else None (end_time ?ts2)\<rparr>
                       else t) (timeslots seed_db)"
    using e3 n3 clean3 by blast+
  have 4: "map start_time (timeslots (db_after (put_timeslots ''ts2'' (Some ''09:40'') None seed_db))) =
     [''09:00'', ''09:40'', ''10:00'', ''10:30'', ''11:00'', ''11:30'', ''12:00'']"
    unfolding ts by (simp add: seed_db_def or_else_def)
  have 5: "map end_time (timeslots (db_after (put_timeslots ''ts2'' (Some ''09:40'') None seed_db))) =
     [''09:30'', ''10:00'', ''10:30'', ''11:00'', ''11:30'', ''12:00'', ''12:30'']"
    unfolding ts by (simp add: seed_db_def or_else_def)
  note e4 = edit_slot_outcomes
    [OF v4, of "''ts2''" seed_db, THEN conjunct2, THEN conjunct2, rule_format, OF sel]
  have 6: "put_timeslots ''ts2'' (Some (''09:40'' @ [CHR 0x00])) None seed_db =
     \<lparr>db_after = seed_db, trace = [], reply = Failure 500 ''Internal server error''\<rparr>"
    using e4 dirty by blast
  have 7: "put_timeslots [CHR ''t'', CHR 0x00] (Some ''09:40'') None seed_db =
     \<lparr>db_after = seed_db, trace = [], reply = Failure 500 ''Internal server error''\<rparr>"
    using edit_slot_outcomes [OF v3, of "[CHR ''t'', CHR 0x00]" seed_db, THEN conjunct1] dirty_id
    by simp
  show ?thesis using 1 2 3 4 5 6 7 by simp
qed

lemma post_timeslots_refused:
  assumes "d \<noteq> []" "s \<noteq> []" "e \<noteq> []" "has_nul d \<or> has_nul s \<or> has_nul e"
  shows "post_timeslots uuid \<lparr>req_slot_date = Some d, req_start_time = Some s,
                              req_end_time = Some e\<rparr> st =
           \<lparr>db_after = st, trace = [], reply = Failure 500 ''Internal server error''\<rparr>"
  using assms by (auto simp: post_timeslots_def falsy_def or_else_def)

lemma post_timeslots_unfold:
  assumes "d \<noteq> []" "s \<noteq> []" "e \<noteq> []" "\<not> has_nul d" "\<not> has_nul s" "\<not> has_nul e"
  shows "post_timeslots uuid \<lparr>req_slot_date = Some d, req_start_time = Some s,
                              req_end_time = Some e\<rparr> st =
     (if length (overlapQuery_create st d s e) > 0 then
        \<lparr>db_after = st, trace = [], reply = Failure 400 ''Overlapping timeslot exists''\<rparr>
      else
        case insert_timeslot
               \<lparr>timeslot_id = uuid, slot_date = d, start_time = s, end_time = e,
                is_booked = False\<rparr> st of
          None \<Rightarrow> \<lparr>db_after = st, trace = [], reply = Failure 500 ''Internal server error''\<rparr>
        | Some st' \<Rightarrow>
            \<lparr>db_after = st',
             trace = [Emit (timeslot_update
                             \<lparr>timeslot_id = uuid, slot_date = d, start_time = s,
                              end_time = e, is_booked = False\<rparr>)],
             reply = Ok uuid\<rparr>)"
  using assms by (simp add: post_timeslots_def falsy_def or_else_def)

lemma post_timeslots_no_invalid_input:
  assumes "d \<noteq> []" "s \<noteq> []" "e \<noteq> []"
  shows "error_kind (reply (post_timeslots uuid \<lparr>req_slot_date = Some d, req_start_time = Some s,
                              req_end_time = Some e\<rparr> st)) \<noteq> Some InvalidInput"
proof (cases "has_nul d \<or> has_nul s \<or> has_nul e")
  case True
  show ?thesis
    unfolding post_timeslots_refused [OF assms True]
    by (simp add: error_kind_def kind_of_message_def)
next
  case False
  then have c: "\<not> has_nul d" "\<not> has_nul s" "\<not> has_nul e" by simp_all
  show ?thesis
    unfolding post_timeslots_unfold [OF assms c]
    by (simp add: error_kind_def kind_of_message_def split: option.splits)
qed

lemma put_timeslots_no_invalid_input:
  assumes "s \<noteq> []" "e \<noteq> []"
  shows "error_kind (reply (put_timeslots tid (Some s) (Some e) st)) \<noteq> Some InvalidInput"
proof -
  have v: "\<not> (falsy (Some s) \<and> falsy (Some e))" using assms by (simp add: falsy_def)
  show ?thesis
  proof (cases "has_nul tid")
    case True
    show ?thesis
      unfolding put_timeslots_refused_id [OF v True]
      by (simp add: error_kind_def kind_of_message_def)
  next
    case nn: False
    show ?thesis
    proof (cases "select_timeslot st tid")
      case Nil
      then show ?thesis
        using assms nn
        by (simp add: put_timeslots_def falsy_def error_kind_def kind_of_message_def)
    next
      case (Cons cur rest)
      show ?thesis
      proof (cases "opt_has_nul (Some s) \<or> opt_has_nul (Some e)")
        case True
        show ?thesis
          unfolding put_timeslots_refused_times [OF v nn Cons True]
          by (simp add: error_kind_def kind_of_message_def)
      next
        case False
        then have c: "\<not> opt_has_nul (Some s)" "\<not> opt_has_nul (Some e)" by simp_all
        show ?thesis
          unfolding put_timeslots_unfold [OF v nn Cons c]
          by (simp add: error_kind_def kind_of_message_def)
      qed
    qed
  qed
qed

text \<open>
  C10. A request whose interval is empty or inverted (\<open>start_time \<ge> end_time\<close>) is never
  answered with an InvalidInput error, by slot creation or by slot editing. A NUL byte in
  the date or a time of a creation request is answered 500 and nothing changes. Without
  such a byte, the slot is created when no slot of that date satisfies
  \<open>start < new_end \<and> end > new_start\<close> (the id drawn from \<^verbatim>\<open>randomUUID\<close> being new among the
  slot ids), and the edit of a slot that the table holds under the id is written when no
  slot of that slot's date satisfies the condition.
\<close>

theorem inverted_interval_accepted:
  assumes "s \<ge> e" "d \<noteq> []" "s \<noteq> []" "e \<noteq> []"
  shows
    "error_kind (reply (post_timeslots uuid \<lparr>req_slot_date = Some d, req_start_time = Some s,
                                            req_end_time = Some e\<rparr> st)) \<noteq> Some InvalidInput \<and>
     (has_nul d \<or> has_nul s \<or> has_nul e \<longrightarrow>
        post_timeslots uuid \<lparr>req_slot_date = Some d, req_start_time = Some s,
                             req_end_time = Some e\<rparr> st =
          \<lparr>db_after = st, trace = [], reply = Failure 500 ''Internal server error''\<rparr>) \<and>
     (\<not> has_nul d \<and> \<not> has_nul s \<and> \<not> has_nul e \<and>
      (\<forall>t \<in> set (timeslots st). slot_date t = d \<longrightarrow> \<not> (start_time t < e \<and> end_time t > s)) \<and>
      uuid \<notin> set (map timeslot_id (timeslots st)) \<longrightarrow>
        post_timeslots uuid \<lparr>req_slot_date = Some d, req_start_time = Some s,
                             req_end_time = Some e\<rparr> st =
          \<lparr>db_after =
             st\<lparr>timeslots := timeslots st @
                   [\<lparr>timeslot_id = uuid, slot_date = d, start_time = s, end_time = e,
                     is_booked = False\<rparr>]\<rparr>,
           trace = [Emit (timeslot_update
                           \<lparr>timeslot_id = uuid, slot_date = d, start_time = s, end_time = e,
                            is_booked = False\<rparr>)],
           reply = Ok uuid\<rparr>) \<and>
     error_kind (reply (put_timeslots tid (Some s) (Some e) st)) \<noteq> Some InvalidInput \<and>
     (\<not> has_nul tid \<and> \<not> has_nul s \<and> \<not> has_nul e \<and>
      tid \<in> set (map timeslot_id (timeslots st)) \<and>
      (\<forall>cur \<in> set (timeslots st). timeslot_id cur = tid \<longrightarrow>
         (\<forall>t \<in> set (timeslots st).
            slot_date t = slot_date cur \<longrightarrow> \<not> (start_time t < e \<and> end_time t > s))) \<longrightarrow>
        reply (put_timeslots tid (Some s) (Some e) st) = Ok ''Timeslot updated successfully'' \<and>
        db_after (put_timeslots tid (Some s) (Some e) st) =
          st\<lparr>timeslots :=
               map (\<lambda>t. if timeslot_id t = tid then t\<lparr>start_time := s, end_time := e\<rparr> else t)
                 (timeslots st)\<rparr>)"
proof (intro conjI impI)
  show "error_kind (reply (post_timeslots uuid \<lparr>req_slot_date = Some d, req_start_time = Some s,
                                            req_end_time = Some e\<rparr> st)) \<noteq> Some InvalidInput"
    by (rule post_timeslots_no_invalid_input [OF assms(2,3,4)])
  show "error_kind (reply (put_timeslots tid (Some s) (Some e) st)) \<noteq> Some InvalidInput"
    by (rule put_timeslots_no_invalid_input [OF assms(3,4)])
next
  assume "has_nul d \<or> has_nul s \<or> has_nul e"
  then show "post_timeslots uuid \<lparr>req_slot_date = Some d, req_start_time = Some s,
                             req_end_time = Some e\<rparr> st =
          \<lparr>db_after = st, trace = [], reply = Failure 500 ''Internal server error''\<rparr>"
    by (rule post_timeslots_refused [OF assms(2,3,4)])
next
  assume a: "\<not> has_nul d \<and> \<not> has_nul s \<and> \<not> has_nul e \<and>
      (\<forall>t \<in> set (timeslots st). slot_date t = d \<longrightarrow> \<not> (start_time t < e \<and> end_time t > s)) \<and>
      uuid \<notin> set (map timeslot_id (timeslots st))"
  then have c: "\<not> has_nul d" "\<not> has_nul s" "\<not> has_nul e" by simp_all
  from a have "\<not> length (overlapQuery_create st d s e) > 0"
    unfolding overlapQuery_create_nonempty by blast
  moreover have "insert_timeslot
               \<lparr>timeslot_id = uuid, slot_date = d, start_time = s, end_time = e,
                is_booked = False\<rparr> st =
          Some (st\<lparr>timeslots := timeslots st @
                   [\<lparr>timeslot_id = uuid, slot_date = d, start_time = s, end_time = e,
                     is_booked = False\<rparr>]\<rparr>)"
    using a by (simp add: insert_timeslot_def)
  ultimately show "post_timeslots uuid \<lparr>req_slot_date = Some d, req_start_time = Some s,
                             req_end_time = Some e\<rparr> st =
          \<lparr>db_after =
             st\<lparr>timeslots := timeslots st @
                   [\<lparr>timeslot_id = uuid, slot_date = d, start_time = s, end_time = e,
                     is_booked = False\<rparr>]\<rparr>,
           trace = [Emit (timeslot_update
                           \<lparr>timeslot_id = uuid, slot_date = d, start_time = s, end_time = e,
                            is_booked = False\<rparr>)],
           reply = Ok uuid\<rparr>"
    unfolding post_timeslots_unfold [OF assms(2,3,4) c] by simp
next
  assume a: "\<not> has_nul tid \<and> \<not> has_nul s \<and> \<not> has_nul e \<and>
      tid \<in> set (map timeslot_id (timeslots st)) \<and>
      (\<forall>cur \<in> set (timeslots st). timeslot_id cur = tid \<longrightarrow>
         (\<forall>t \<in> set (timeslots st).
            slot_date t = slot_date cur \<longrightarrow> \<not> (start_time t < e \<and> end_time t > s)))"
  then have nn: "\<not> has_nul tid"
    and c: "\<not> opt_has_nul (Some s)" "\<not> opt_has_nul (Some e)"
    by (simp_all add: opt_has_nul_def)
  from a obtain cur rest where sel: "select_timeslot st tid = cur # rest"
    using select_timeslot_empty [of st tid] by (cases "select_timeslot st tid") auto
  note cur = select_timeslot_Cons [OF sel]
  have free: "\<forall>t \<in> set (timeslots st).
                slot_date t = slot_date cur \<longrightarrow> \<not> (start_time t < e \<and> end_time t > s)"
    using a cur by blast
  have v: "\<not> (falsy (Some s) \<and> falsy (Some e))" using assms by (simp add: falsy_def)
  have o: "or_else (Some s) (start_time cur) = s" "or_else (Some e) (end_time cur) = e"
    using assms by (simp_all add: or_else_def)
  have n: "\<not> length (overlapQuery_edit st (slot_date cur) tid s e) > 0"
    unfolding overlapQuery_edit_nonempty using free by blast
  have eq: "put_timeslots tid (Some s) (Some e) st =
        \<lparr>db_after = update_times s e tid st,
         trace = [Emit (timeslot_update
                         \<lparr>timeslot_id = tid, slot_date = slot_date cur,
                          start_time = s, end_time = e, is_booked = is_booked cur\<rparr>)],
         reply = Ok ''Timeslot updated successfully''\<rparr>"
    using put_timeslots_unfold [OF v nn sel c] n unfolding o by simp
  show "reply (put_timeslots tid (Some s) (Some e) st) = Ok ''Timeslot updated successfully''"
    unfolding eq by simp
  show "db_after (put_timeslots tid (Some s) (Some e) st) =
          st\<lparr>timeslots :=
               map (\<lambda>t. if timeslot_id t = tid then t\<lparr>start_time := s, end_time := e\<rparr> else t)
                 (timeslots st)\<rparr>"
    unfolding eq by (simp add: update_times_def)
qed

theorem inverted_interval_accepted_witness:
  "''10:00'' \<ge> ''09:30'' \<and>
   reply (post_timeslots ''u7'' \<lparr>req_slot_date = Some ''2023-10-17'',
                                 req_start_time = Some ''10:00'',
                                 req_end_time = Some ''09:30''\<rparr> seed_db) = Ok ''u7'' \<and>
   length (timeslots (db_after
     (post_timeslots ''u7'' \<lparr>req_slot_date = Some ''2023-10-17'',
                             req_start_time = Some ''10:00'',
                             req_end_time = Some ''09:30''\<rparr> seed_db))) = 8 \<and>
   ''09:20'' \<ge> ''09:10'' \<and>
   reply (put_timeslots ''ts5'' (Some ''09:20'') (Some ''09:10'') seed_db) =
     Ok ''Timeslot updated successfully'' \<and>
   map start_time (timeslots (db_after
     (put_timeslots ''ts5'' (Some ''09:20'') (Some ''09:10'') seed_db))) =
     [''09:00'', ''09:30'', ''10:00'', ''10:30'', ''09:20'', ''11:30'', ''12:00''] \<and>
   ''10:00'' @ [CHR 0x00] \<ge> ''09:30'' \<and>
   post_timeslots ''u7'' \<lparr>req_slot_date = Some ''2023-10-17'',
                          req_start_time = Some (''10:00'' @ [CHR 0x00]),
                          req_end_time = Some ''09:30''\<rparr> seed_db =
     \<lparr>db_after = seed_db, trace = [], reply = Failure 500 ''Internal server error''\<rparr>"
proof -
  have le: "''10:00'' \<ge> ''09:30''" and le2: "''09:20'' \<ge> ''09:10''"
    and le3: "''10:00'' @ [CHR 0x00] \<ge> ''09:30''" by simp_all
  have ne: "''2023-10-17'' \<noteq> []" "''10:00'' \<noteq> []" "''09:30'' \<noteq> []"
    and ne2: "''09:20'' \<noteq> []" "''09:10'' \<noteq> []"
    and ne3: "''10:00'' @ [CHR 0x00] \<noteq> []" by simp_all
  note t = inverted_interval_accepted [OF le ne, of "''u7''" seed_db "''ts5''"]
  note u = inverted_interval_accepted [OF le2 ne(1) ne2, of "''u7''" seed_db "''ts5''"]
  note w = inverted_interval_accepted [OF le3 ne(1) ne3 ne(3), of "''u7''" seed_db "''ts5''"]
  have c: "\<not> has_nul ''2023-10-17'' \<and> \<not> has_nul ''10:00'' \<and> \<not> has_nul ''09:30'' \<and>
           (\<forall>t \<in> set (timeslots seed_db).
              slot_date t = ''2023-10-17'' \<longrightarrow> \<not> (start_time t < ''09:30'' \<and> end_time t > ''10:00'')) \<and>
           ''u7'' \<notin> set (map timeslot_id (timeslots seed_db))"
    by (simp add: seed_db_def has_nul_def)
  have e: "\<not> has_nul ''ts5'' \<and> \<not> has_nul ''09:20'' \<and> \<not> has_nul ''09:10'' \<and>
        ''ts5'' \<in> set (map timeslot_id (timeslots seed_db)) \<and>
        (\<forall>cur \<in> set (timeslots seed_db). timeslot_id cur = ''ts5'' \<longrightarrow>
           (\<forall>t \<in> set (timeslots seed_db).
              slot_date t = slot_date cur \<longrightarrow> \<not> (start_time t < ''09:10'' \<and> end_time t > ''09:20'')))"
    by (simp add: seed_db_def has_nul_def)
  have f: "has_nul ''2023-10-17'' \<or> has_nul (''10:00'' @ [CHR 0x00]) \<or> has_nul ''09:30''"
    by (simp add: has_nul_def)
  note t1 = t [THEN conjunct2, THEN conjunct2, THEN conjunct1, rule_format, OF c]
  note u2 = u [THEN conjunct2, THEN conjunct2, THEN conjunct2, THEN conjunct2, rule_format, OF e]
  note w3 = w [THEN conjunct2, THEN conjunct1, rule_format, OF f]
  have 1: "reply (post_timeslots ''u7'' \<lparr>req_slot_date = Some ''2023-10-17'',
                                 req_start_time = Some ''10:00'',
                                 req_end_time = Some ''09:30''\<rparr> seed_db) = Ok ''u7''"
    unfolding t1 by simp
  have 2: "length (timeslots (db_after
     (post_timeslots ''u7'' \<lparr>req_slot_date = Some ''2023-10-17'',
                             req_start_time = Some ''10:00'',
                             req_end_time = Some ''09:30''\<rparr> seed_db))) = 8"
    unfolding t1 by (simp add: seed_db_def)
  have 3: "map start_time (timeslots (db_after
     (put_timeslots ''ts5'' (Some ''09:20'') (Some ''09:10'') seed_db))) =
     [''09:00'', ''09:30'', ''10:00'', ''10:30'', ''09:20'', ''11:30'', ''12:00'']"
    using u2 by (simp add: seed_db_def)
  show ?thesis using le le2 le3 1 2 3 u2 w3 by simp
qed

section \<open>The monthly aggregate of the calendar\<close>

lemma sum_booked_flags:
  "sum_list (map (\<lambda>t. if is_booked t then 1 else 0) xs) = length (filter is_booked xs)"
  by (induction xs) simp_all

lemma calendar_query_dates:
  "map row_slot_date (calendar_query st p) =
     sort (remdups (map slot_date (filter (\<lambda>t. sql_like p (slot_date t)) (timeslots st))))"
  by (simp add: calendar_query_def Let_def comp_def)

lemma calendar_query_row:
  assumes "row \<in> set (calendar_query st p)"
  shows "sql_like p (row_slot_date row) \<and>
         row_total_slots row = length (filter (\<lambda>t. slot_date t = row_slot_date row) (timeslots st)) \<and>
         row_booked_slots row =
           length (filter (\<lambda>t. slot_date t = row_slot_date row \<and> is_booked t) (timeslots st)) \<and>
         row_total_slots row \<ge> 1"
proof -
  let ?rows = "filter (\<lambda>t. sql_like p (slot_date t)) (timeslots st)"
  from assms obtain d where d: "d \<in> set (map slot_date ?rows)"
    and row: "row = \<lparr>row_slot_date = d,
                     row_total_slots = length (filter (\<lambda>t. slot_date t = d) ?rows),
                     row_booked_slots =
                       sum_list (map (\<lambda>t. if is_booked t then 1 else 0)
                                   (filter (\<lambda>t. slot_date t = d) ?rows))\<rparr>"
    by (auto simp: calendar_query_def Let_def)
  from d have like: "sql_like p d" by auto
  have "filter (\<lambda>t. slot_date t = d) ?rows =
          filter (\<lambda>t. sql_like p (slot_date t) \<and> slot_date t = d) (timeslots st)"
    by simp
  also have "\<dots> = filter (\<lambda>t. slot_date t = d) (timeslots st)"
    using like by (intro filter_cong) auto
  finally have grp:
    "filter (\<lambda>t. slot_date t = d) ?rows = filter (\<lambda>t. slot_date t = d) (timeslots st)" .
  from d obtain t where "t \<in> set (timeslots st)" "slot_date t = d" by auto
  then have "filter (\<lambda>t. slot_date t = d) (timeslots st) \<noteq> []"
    by (auto simp: filter_empty_conv)
  then have pos: "length (filter (\<lambda>t. slot_date t = d) (timeslots st)) \<ge> 1"
    by (simp add: Suc_le_eq)
  have booked: "length (filter is_booked (filter (\<lambda>t. slot_date t = d) (timeslots st))) =
                length (filter (\<lambda>t. slot_date t = d \<and> is_booked t) (timeslots st))"
    by (simp add: conj_commute)
  have f1: "row_slot_date row = d" by (simp add: row)
  have f2: "row_total_slots row = length (filter (\<lambda>t. slot_date t = d) ?rows)"
    by (simp add: row)
  have f3: "row_booked_slots row = length (filter is_booked (filter (\<lambda>t. slot_date t = d) ?rows))"
    by (simp add: row sum_booked_flags)
  show ?thesis
    unfolding f1 f2 f3 grp booked using like pos by simp
qed

lemma sql_like_percent: "sql_like [CHR ''%''] s"
  by (induction s) (simp_all add: sql_like.simps)

lemma sql_like_literal:
  assumes "c \<noteq> CHR ''%''" "c \<noteq> CHR ''_''" "c \<noteq> CHR 0x5C"
  shows "sql_like (c # ps) s = (case s of [] \<Rightarrow> False | x # xs \<Rightarrow> x = c \<and> sql_like ps xs)"
  using assms by (subst sql_like.simps) simp

lemma sql_like_literal_prefix:
  assumes "\<forall>c \<in> set p. c \<noteq> CHR ''%'' \<and> c \<noteq> CHR ''_'' \<and> c \<noteq> CHR 0x5C"
  shows "sql_like (p @ [CHR ''%'']) s \<longleftrightarrow> take (length p) s = p"
  using assms
proof (induction p arbitrary: s)
  case Nil
  then show ?case using sql_like_percent by simp
next
  case (Cons c p)
  then have lit: "c \<noteq> CHR ''%''" "c \<noteq> CHR ''_''" "c \<noteq> CHR 0x5C"
    and ih: "\<And>s. sql_like (p @ [CHR ''%'']) s \<longleftrightarrow> take (length p) s = p"
    by simp_all
  show ?case
  proof (cases s)
    case Nil
    then show ?thesis by (simp add: sql_like_literal [OF lit])
  next
    case (Cons x xs)
    then show ?thesis
      by (simp add: sql_like_literal [OF lit] ih)
  qed
qed

lemma padStart2_chars: "c \<in> set (padStart2 m) \<Longrightarrow> c \<in> set m \<or> c = CHR ''0''"
  by (auto simp: padStart2_def)

lemma month_pattern_prefix:
  assumes "\<forall>c \<in> set (y @ m). c \<noteq> CHR ''%'' \<and> c \<noteq> CHR ''_'' \<and> c \<noteq> CHR 0x5C"
  shows "sql_like (month_pattern y m) d \<longleftrightarrow>
           take (length (y @ ''-'' @ padStart2 m @ ''-'')) d = y @ ''-'' @ padStart2 m @ ''-''"
proof -
  have "c \<noteq> CHR ''%'' \<and> c \<noteq> CHR ''_'' \<and> c \<noteq> CHR 0x5C"
    if "c \<in> set (y @ ''-'' @ padStart2 m @ ''-'')" for c
  proof -
    from that consider "c \<in> set y" | "c = CHR ''-''" | "c \<in> set (padStart2 m)"
      by auto
    then show ?thesis
    proof cases
      case 1 then show ?thesis using assms by simp
    next
      case 2 then show ?thesis by simp
    next
      case 3
      then have "c \<in> set m \<or> c = CHR ''0''" by (rule padStart2_chars)
      then show ?thesis using assms by auto
    qed
  qed
  then have "\<forall>c \<in> set (y @ ''-'' @ padStart2 m @ ''-''). c \<noteq> CHR ''%'' \<and> c \<noteq> CHR ''_'' \<and> c \<noteq> CHR 0x5C"
    by blast
  from sql_like_literal_prefix [OF this, of d]
  have "sql_like ((y @ ''-'' @ padStart2 m @ ''-'') @ [CHR ''%'']) d \<longleftrightarrow>
          take (length (y @ ''-'' @ padStart2 m @ ''-'')) d = y @ ''-'' @ padStart2 m @ ''-''" .
  moreover have "month_pattern y m = (y @ ''-'' @ padStart2 m @ ''-'') @ [CHR ''%'']"
    by (simp add: month_pattern_def)
  ultimately show ?thesis by simp
qed

lemma padStart2_eq: "m \<noteq> [] \<Longrightarrow> padStart2 m = (if length m = 1 then ''0'' @ m else m)"
  by (cases m; cases "tl m") (simp_all add: padStart2_def)

lemma has_nul_month_pattern: "has_nul (month_pattern y m) \<longleftrightarrow> has_nul y \<or> has_nul m"
proof
  assume "has_nul (month_pattern y m)"
  then have "CHR 0x00 \<in> set y \<or> CHR 0x00 \<in> set (padStart2 m)"
    by (simp add: has_nul_def month_pattern_def)
  then show "has_nul y \<or> has_nul m"
    using padStart2_chars [of "CHR 0x00" m] by (auto simp: has_nul_def)
next
  assume "has_nul y \<or> has_nul m"
  then show "has_nul (month_pattern y m)"
    by (auto simp: has_nul_def month_pattern_def padStart2_def)
qed

text \<open>
  C9. For a month and a year that are supplied. A NUL byte in one of them makes the query
  raise: the reply is 500. Without one, the reply lists one entry for each distinct date
  that some slot matching the month pattern has, and no other date, in strictly ascending
  order of the date. An entry carries the number of slots of its date (at least one), the
  number of booked ones among them, and \<open>available\<close> computed as
  \<open>total_slots - booked_slots > 0\<close>. When the year and the month hold no wildcard of
  \<^verbatim>\<open>LIKE\<close>, the dates listed are those of the slots whose date starts with the year, a
  dash, the month (with a zero before a month of one character) and a dash.
\<close>

theorem monthly_aggregate:
  assumes "month = Some m" "m \<noteq> []" "year = Some y" "y \<noteq> []"
  shows
    "(has_nul y \<or> has_nul m \<longrightarrow>
        get_calendar month year st = Failure 500 ''Internal server error'') \<and>
     (\<not> has_nul y \<and> \<not> has_nul m \<longrightarrow>
        (\<exists>entries. get_calendar month year st = Ok entries \<and>
           sorted_wrt (<) (map ce_slot_date entries) \<and>
           set (map ce_slot_date entries) =
             set (map slot_date
                    (filter (\<lambda>t. sql_like (month_pattern y m) (slot_date t)) (timeslots st))) \<and>
           (\<forall>en \<in> set entries.
              total_slots en =
                int (length (filter (\<lambda>t. slot_date t = ce_slot_date en) (timeslots st))) \<and>
              booked_slots en =
                int (length (filter (\<lambda>t. slot_date t = ce_slot_date en \<and> is_booked t)
                               (timeslots st))) \<and>
              available en = (total_slots en - booked_slots en > 0) \<and>
              total_slots en \<ge> 1) \<and>
           ((\<forall>c \<in> set (y @ m). c \<noteq> CHR ''%'' \<and> c \<noteq> CHR ''_'' \<and> c \<noteq> CHR 0x5C) \<longrightarrow>
              set (map ce_slot_date entries) =
                set (map slot_date
                       (filter
                          (\<lambda>t. take (length (y @ ''-'' @ (if length m = 1 then ''0'' @ m else m) @ ''-''))
                                 (slot_date t) =
                               y @ ''-'' @ (if length m = 1 then ''0'' @ m else m) @ ''-'')
                          (timeslots st))))))"
proof (intro conjI impI)
  assume "has_nul y \<or> has_nul m"
  then have "has_nul (month_pattern y m)" by (simp add: has_nul_month_pattern)
  then show "get_calendar month year st = Failure 500 ''Internal server error''"
    using assms by (simp add: get_calendar_def falsy_def or_else_def)
next
  assume "\<not> has_nul y \<and> \<not> has_nul m"
  then have clean: "\<not> has_nul (month_pattern y m)" by (simp add: has_nul_month_pattern)
  let ?p = "month_pattern y m"
  let ?pre = "y @ ''-'' @ (if length m = 1 then ''0'' @ m else m) @ ''-''"
  let ?conv = "\<lambda>row. \<lparr>ce_slot_date = row_slot_date row,
                         total_slots = int (row_total_slots row),
                         booked_slots = int (row_booked_slots row),
                         available = (int (row_total_slots row) - int (row_booked_slots row) > 0)\<rparr>"
  let ?entries = "map ?conv (calendar_query st ?p)"
  have eq: "get_calendar month year st = Ok ?entries"
    using assms clean by (simp add: get_calendar_def falsy_def or_else_def)
  have dates: "map ce_slot_date ?entries =
      sort (remdups (map slot_date (filter (\<lambda>t. sql_like ?p (slot_date t)) (timeslots st))))"
    using calendar_query_dates [of st ?p] by (simp add: comp_def)
  have srt: "sorted_wrt (<) (map ce_slot_date ?entries)"
    unfolding dates by (simp add: strict_sorted_iff)
  have st: "set (map ce_slot_date ?entries) =
         set (map slot_date (filter (\<lambda>t. sql_like ?p (slot_date t)) (timeslots st)))"
    unfolding dates by simp
  have ent: "\<forall>en \<in> set ?entries.
          total_slots en =
            int (length (filter (\<lambda>t. slot_date t = ce_slot_date en) (timeslots st))) \<and>
          booked_slots en =
            int (length (filter (\<lambda>t. slot_date t = ce_slot_date en \<and> is_booked t)
                           (timeslots st))) \<and>
          available en = (total_slots en - booked_slots en > 0) \<and>
          total_slots en \<ge> 1"
  proof
    fix en assume "en \<in> set ?entries"
    then obtain row where row: "row \<in> set (calendar_query st ?p)" and en: "en = ?conv row"
      by auto
    show "total_slots en =
            int (length (filter (\<lambda>t. slot_date t = ce_slot_date en) (timeslots st))) \<and>
          booked_slots en =
            int (length (filter (\<lambda>t. slot_date t = ce_slot_date en \<and> is_booked t)
                           (timeslots st))) \<and>
          available en = (total_slots en - booked_slots en > 0) \<and>
          total_slots en \<ge> 1"
      using calendar_query_row [OF row] unfolding en by simp
  qed
  have pre: "set (map ce_slot_date ?entries) =
                set (map slot_date
                       (filter (\<lambda>t. take (length ?pre) (slot_date t) = ?pre) (timeslots st)))"
    if plain: "\<forall>c \<in> set (y @ m). c \<noteq> CHR ''%'' \<and> c \<noteq> CHR ''_'' \<and> c \<noteq> CHR 0x5C"
  proof -
    have "sql_like ?p d \<longleftrightarrow> take (length ?pre) d = ?pre" for d
      using month_pattern_prefix [OF plain, of d] padStart2_eq [OF assms(2)] by simp
    then show ?thesis unfolding st by simp
  qed
  show "\<exists>entries. get_calendar month year st = Ok entries \<and>
           sorted_wrt (<) (map ce_slot_date entries) \<and>
           set (map ce_slot_date entries) =
             set (map slot_date
                    (filter (\<lambda>t. sql_like (month_pattern y m) (slot_date t)) (timeslots st))) \<and>
           (\<forall>en \<in> set entries.
              total_slots en =
                int (length (filter (\<lambda>t. slot_date t = ce_slot_date en) (timeslots st))) \<and>
              booked_slots en =
                int (length (filter (\<lambda>t. slot_date t = ce_slot_date en \<and> is_booked t)
                               (timeslots st))) \<and>
              available en = (total_slots en - booked_slots en > 0) \<and>
              total_slots en \<ge> 1) \<and>
           ((\<forall>c \<in> set (y @ m). c \<noteq> CHR ''%'' \<and> c \<noteq> CHR ''_'' \<and> c \<noteq> CHR 0x5C) \<longrightarrow>
              set (map ce_slot_date entries) =
                set (map slot_date
                       (filter
                          (\<lambda>t. take (length (y @ ''-'' @ (if length m = 1 then ''0'' @ m else m) @ ''-''))
                                 (slot_date t) =
                               y @ ''-'' @ (if length m = 1 then ''0'' @ m else m) @ ''-'')
                          (timeslots st))))"
    using eq srt st ent pre by (intro exI [of _ ?entries]) blast
qed

theorem monthly_aggregate_witness:
  "get_calendar (Some ''10'') (Some ''2023'') seed_db =
     Ok [\<lparr>ce_slot_date = ''2023-10-15'', total_slots = 4, booked_slots = 2, available = True\<rparr>,
         \<lparr>ce_slot_date = ''2023-10-16'', total_slots = 3, booked_slots = 0, available = True\<rparr>] \<and>
   sorted_wrt (<) [''2023-10-15'', ''2023-10-16''] \<and>
   get_calendar (Some ''9'') (Some ''2023'')
     \<lparr>timeslots =
        [\<lparr>timeslot_id = ''s1'', slot_date = ''2023-09-05'', start_time = ''09:00'',
          end_time = ''09:30'', is_booked = True\<rparr>,
         \<lparr>timeslot_id = ''s2'', slot_date = ''2023-10-01'', start_time = ''09:00'',
          end_time = ''09:30'', is_booked = False\<rparr>],
      bookings = []\<rparr> =
     Ok [\<lparr>ce_slot_date = ''2023-09-05'', total_slots = 1, booked_slots = 1, available = False\<rparr>] \<and>
   set [''2023-09-05''] =
     set (map slot_date
            (filter (\<lambda>t. take (length ''2023-09-'') (slot_date t) = ''2023-09-'')
               [\<lparr>timeslot_id = ''s1'', slot_date = ''2023-09-05'', start_time = ''09:00'',
                 end_time = ''09:30'', is_booked = True\<rparr>,
                \<lparr>timeslot_id = ''s2'', slot_date = ''2023-10-01'', start_time = ''09:00'',
                 end_time = ''09:30'', is_booked = False\<rparr>])) \<and>
   get_calendar (Some [CHR ''1'', CHR 0x00]) (Some ''2023'') seed_db =
     Failure 500 ''Internal server error''"
proof -
  let ?sep = "\<lparr>timeslots =
        [\<lparr>timeslot_id = ''s1'', slot_date = ''2023-09-05'', start_time = ''09:00'',
          end_time = ''09:30'', is_booked = True\<rparr>,
         \<lparr>timeslot_id = ''s2'', slot_date = ''2023-10-01'', start_time = ''09:00'',
          end_time = ''09:30'', is_booked = False\<rparr>],
      bookings = []\<rparr>"
  have v: "Some ''10'' = Some ''10''" "''10'' \<noteq> []" "Some ''2023'' = Some ''2023''" "''2023'' \<noteq> []"
    and v9: "Some ''9'' = Some ''9''" "''9'' \<noteq> []"
    and v0: "Some [CHR ''1'', CHR 0x00] = Some [CHR ''1'', CHR 0x00]" "[CHR ''1'', CHR 0x00] \<noteq> []"
    by simp_all
  have clean: "\<not> has_nul ''2023'' \<and> \<not> has_nul ''10''"
    and clean9: "\<not> has_nul ''2023'' \<and> \<not> has_nul ''9''"
    and dirty: "has_nul ''2023'' \<or> has_nul [CHR ''1'', CHR 0x00]"
    by (simp_all add: has_nul_def)
  have val: "get_calendar (Some ''10'') (Some ''2023'') seed_db =
     Ok [\<lparr>ce_slot_date = ''2023-10-15'', total_slots = 4, booked_slots = 2, available = True\<rparr>,
         \<lparr>ce_slot_date = ''2023-10-16'', total_slots = 3, booked_slots = 0, available = True\<rparr>]"
    by code_simp
  have val9: "get_calendar (Some ''9'') (Some ''2023'') ?sep =
     Ok [\<lparr>ce_slot_date = ''2023-09-05'', total_slots = 1, booked_slots = 1, available = False\<rparr>]"
    by code_simp
  have plain9: "\<forall>c \<in> set (''2023'' @ ''9''). c \<noteq> CHR ''%'' \<and> c \<noteq> CHR ''_'' \<and> c \<noteq> CHR 0x5C"
    by simp
  from monthly_aggregate [OF v(1,2,3,4), of seed_db, THEN conjunct2, rule_format, OF clean]
  obtain entries where
    e: "get_calendar (Some ''10'') (Some ''2023'') seed_db = Ok entries"
    and s: "sorted_wrt (<) (map ce_slot_date entries)"
    by blast
  from e val have "entries =
       [\<lparr>ce_slot_date = ''2023-10-15'', total_slots = 4, booked_slots = 2, available = True\<rparr>,
        \<lparr>ce_slot_date = ''2023-10-16'', total_slots = 3, booked_slots = 0, available = True\<rparr>]"
    by simp
  with s have 1: "sorted_wrt (<) [''2023-10-15'', ''2023-10-16'']" by simp
  from monthly_aggregate [OF v9 v(3,4), of ?sep, THEN conjunct2, rule_format, OF clean9]
  obtain entries9 where
    e9: "get_calendar (Some ''9'') (Some ''2023'') ?sep = Ok entries9"
    and p9: "(\<forall>c \<in> set (''2023'' @ ''9''). c \<noteq> CHR ''%'' \<and> c \<noteq> CHR ''_'' \<and> c \<noteq> CHR 0x5C) \<longrightarrow>
              set (map ce_slot_date entries9) =
                set (map slot_date
                       (filter
                          (\<lambda>t. take (length (''2023'' @ ''-'' @
                                         (if length ''9'' = 1 then ''0'' @ ''9'' else ''9'') @ ''-''))
                                 (slot_date t) =
                               ''2023'' @ ''-'' @
                                 (if length ''9'' = 1 then ''0'' @ ''9'' else ''9'') @ ''-'')
                          (timeslots ?sep)))"
    by blast
  from e9 val9 have "entries9 =
       [\<lparr>ce_slot_date = ''2023-09-05'', total_slots = 1, booked_slots = 1, available = False\<rparr>]"
    by simp
  with p9 plain9 have 2: "set [''2023-09-05''] =
     set (map slot_date
            (filter (\<lambda>t. take (length ''2023-09-'') (slot_date t) = ''2023-09-'')
               (timeslots ?sep)))"
    by simp
  have 3: "get_calendar (Some [CHR ''1'', CHR 0x00]) (Some ''2023'') seed_db =
     Failure 500 ''Internal server error''"
    using monthly_aggregate [OF v0 v(3,4), of seed_db, THEN conjunct1] dirty by simp
  show ?thesis using val val9 1 2 3 by simp
qed

section \<open>Booking attempts one after the other\<close>

lemma select_timeslot_update_is_booked:
  "select_timeslot (update_is_booked v tid st) tid =
     map (\<lambda>t. t\<lparr>is_booked := v\<rparr>) (select_timeslot st tid)"
proof -
  have "filter (\<lambda>t. timeslot_id t = tid)
          (map (\<lambda>t. if timeslot_id t = tid then t\<lparr>is_booked := v\<rparr> else t) xs) =
        map (\<lambda>t. t\<lparr>is_booked := v\<rparr>) (filter (\<lambda>t. timeslot_id t = tid) xs)"
    for xs :: "timeslot list"
    by (induction xs) auto
  then show ?thesis
    by (simp add: select_timeslot_def update_is_booked_def)
qed

text \<open>
  When the attempts on one slot run one after the other, the attempt that follows a
  committed booking of the slot is answered ``Timeslot already booked'' and changes
  nothing.
\<close>

lemma rebooking_conflict:
  assumes req: "req_timeslot_id req = Some tid" "tid \<noteq> []" "req_full_name req = Some name"
      "name \<noteq> []" "req_email req = Some mail" "mail \<noteq> []"
    and req': "req_timeslot_id req' = Some tid" "tid \<noteq> []" "req_full_name req' = Some name'"
      "name' \<noteq> []" "req_email req' = Some mail'" "mail' \<noteq> []"
    and nn: "\<not> has_nul tid"
    and ok: "reply (post_bookings uuid now req st) = Ok v"
  shows "post_bookings uuid' now' req' (db_after (post_bookings uuid now req st)) =
           \<lparr>db_after = db_after (post_bookings uuid now req st), trace = [BEGIN, ROLLBACK],
            reply = Failure 400 ''Timeslot already booked''\<rparr>"
proof -
  let ?b = "\<lparr>booking_id = uuid, b_timeslot_id = tid, full_name = name, email = mail,
             phone = or_null (req_phone req),
             appointment_notes = or_null (req_appointment_notes req),
             booking_status = ''active'', created_at = now\<rparr>"
  from ok obtain t rest st' where sel: "select_timeslot st tid = t # rest"
    and ins: "insert_booking ?b (update_is_booked True tid st) = Some st'"
    and after: "db_after (post_bookings uuid now req st) = st'"
    unfolding post_bookings_valid [OF req nn]
    by (auto split: list.splits if_splits option.splits)
  from ins have st': "st' = (update_is_booked True tid st)\<lparr>bookings := bookings st @ [?b]\<rparr>"
    by (auto simp: insert_booking_def update_is_booked_bookings split: if_splits)
  have "select_timeslot st' tid = select_timeslot (update_is_booked True tid st) tid"
    unfolding st' by (simp add: select_timeslot_def)
  then have "select_timeslot st' tid =
               t\<lparr>is_booked := True\<rparr> # map (\<lambda>t. t\<lparr>is_booked := True\<rparr>) rest"
    using sel by (simp add: select_timeslot_update_is_booked)
  then show ?thesis
    unfolding after post_bookings_valid [OF req' nn] by simp
qed

end
